theory Spec2Isabelle
  imports Main "HOL-Library.Multiset"
begin

section \<open>Chess Master: the game session of \<open>ChessGame.tsx\<close>\<close>

text \<open>
  The component \<open>ChessGame\<close> keeps one \<open>GameState\<close> object in React state and replaces it
  through \<open>setGameState\<close>. Every handler of the component is modelled as a function from the
  previous state to the next one, or to the error it throws. The rules engine (the
  \<open>chess.js\<close> library) is not part of the repository: it is a parameter of the model, a
  record with one field for each method of the \<open>Chess\<close> class that the component calls.
  The sounds, the toasts other than the one for the expiry of time, the export and the write
  to \<open>localStorage\<close> that follows an update do not change the \<open>GameState\<close> and are left
  out.
\<close>

subsection \<open>Values exchanged with the rules engine\<close>

type_synonym Square = string

text \<open>The engine's \<open>'w'\<close> and \<open>'b'\<close>.\<close>

datatype Color = White | Black

text \<open>The engine's piece symbols \<open>'p' 'n' 'b' 'r' 'q' 'k'\<close>.\<close>

datatype PieceSymbol = Pawn | Knight | Bishop | Rook | Queen | King

text \<open>
  The move object returned by \<open>move\<close> and listed by \<open>history({verbose: true})\<close> and
  \<open>moves({square, verbose: true})\<close>; only the fields the component reads.
  \<open>src\<close> and \<open>dst\<close> are the fields \<open>from\<close> and \<open>to\<close>.
\<close>

record Move =
  color :: Color
  src :: Square
  dst :: Square
  san :: string
  captured :: "PieceSymbol option"

text \<open>
  The outcome of a call of the engine's \<open>move\<close>. The library mutates the game object;
  here \<open>Moved m g\<close> is the move object \<open>m\<close> that the call returns together with the game
  \<open>g\<close> after the move. \<open>Throws\<close> is the \<open>Error\<close> that the \<open>move\<close> of chess.js 1.x (the
  version with \<open>isGameOver\<close> and \<open>loadPgn\<close>) throws on a move that is not legal, and
  \<open>Null\<close> is a falsy result, which the component tests for with \<open>if (!move)\<close> and
  which that version never returns.
\<close>

datatype 'g MoveResult = Moved Move 'g | Null | Throws

datatype Error = InvalidMove

text \<open>
  The methods of a \<open>Chess\<close> object \<open>'g\<close> used by the component.
  \<^item> \<open>newChess\<close> is \<open>new Chess()\<close>, \<open>loadFen f\<close> is \<open>new Chess(f)\<close>;
  \<^item> \<open>moveObj g a b\<close> is \<open>g.move({from: a, to: b, promotion: 'q'})\<close>;
  \<^item> \<open>moveSan g n\<close> is \<open>g.move(n)\<close> for a notation string \<open>n\<close>;
  \<^item> \<open>get g a\<close> is the colour of the piece \<open>g.get(a)\<close>, if there is one;
  \<^item> \<open>moves g a\<close> is \<open>g.moves({square: a, verbose: true})\<close>;
  \<^item> \<open>loadPgn v\<close> is \<open>new Chess()\<close> after \<open>loadPgn(v)\<close>, \<open>None\<close> when that throws.
\<close>

datatype json =
    JNull
  | JBool bool
  | JNum int
  | JFrac
  | JStr string
  | JArr "json list"
  | JObj "(string \<times> json) list"

record 'g Engine =
  newChess :: 'g
  fen :: "'g \<Rightarrow> string"
  loadFen :: "string \<Rightarrow> 'g"
  moveObj :: "'g \<Rightarrow> Square \<Rightarrow> Square \<Rightarrow> 'g MoveResult"
  moveSan :: "'g \<Rightarrow> string \<Rightarrow> 'g MoveResult"
  history :: "'g \<Rightarrow> Move list"
  isCheck :: "'g \<Rightarrow> bool"
  isGameOver :: "'g \<Rightarrow> bool"
  turn :: "'g \<Rightarrow> Color"
  get :: "'g \<Rightarrow> Square \<Rightarrow> Color option"
  moves :: "'g \<Rightarrow> Square \<Rightarrow> Move list"
  loadPgn :: "json option \<Rightarrow> 'g option"

subsection \<open>The state of a session\<close>

record CapturedPieces =
  cp_white :: "string list"
  cp_black :: "string list"

text \<open>Seconds are JavaScript numbers; every value the component computes is an integer.\<close>

record TimeControl =
  tc_white :: int
  tc_black :: int
  increment :: int

record 'g GameState =
  game :: 'g
  gameHistory :: "string list"
  capturedPieces :: CapturedPieces
  lastMove :: "(Square \<times> Square) option"
  selectedSquare :: "Square option"
  legalMoves :: "Square list"
  isFlipped :: bool
  soundEnabled :: bool
  timeControl :: TimeControl
  isTimerRunning :: bool
  boardTheme :: string

definition initialTimeControl :: TimeControl where
  "initialTimeControl = \<lparr>tc_white = 10 * 60, tc_black = 10 * 60, increment = 0\<rparr>"

text \<open>The state the initialiser returns when nothing is restored.\<close>

definition freshState :: "'g Engine \<Rightarrow> 'g GameState" where
  "freshState E =
     \<lparr>game = newChess E,
      gameHistory = [],
      capturedPieces = \<lparr>cp_white = [], cp_black = []\<rparr>,
      lastMove = None,
      selectedSquare = None,
      legalMoves = [],
      isFlipped = False,
      soundEnabled = True,
      timeControl = initialTimeControl,
      isTimerRunning = False,
      boardTheme = ''classic''\<rparr>"

subsection \<open>Captured pieces\<close>

definition toUpperCase :: "PieceSymbol \<Rightarrow> string" where
  "toUpperCase p =
     (case p of Pawn \<Rightarrow> ''P'' | Knight \<Rightarrow> ''N'' | Bishop \<Rightarrow> ''B''
              | Rook \<Rightarrow> ''R'' | Queen \<Rightarrow> ''Q'' | King \<Rightarrow> ''K'')"

text \<open>
  The block shared by \<open>handleMove\<close> and \<open>undoMove\<close>: a captured piece is named by the
  colour of its owner (the opponent of the mover) and pushed on the bucket of the mover.
\<close>

definition pushCaptured :: "CapturedPieces \<Rightarrow> Move \<Rightarrow> CapturedPieces" where
  "pushCaptured cp move =
     (case captured move of
        None \<Rightarrow> cp
      | Some p \<Rightarrow>
          (let capturedPiece =
                 (if color move = White then ''b'' @ toUpperCase p else ''w'' @ toUpperCase p)
           in if color move = White
              then cp\<lparr>cp_white := cp_white cp @ [capturedPiece]\<rparr>
              else cp\<lparr>cp_black := cp_black cp @ [capturedPiece]\<rparr>))"

subsection \<open>Handlers\<close>

text \<open>
  \<open>handleMove\<close>: the move is tried on a copy of the position made through its FEN string.
  The call of \<open>move\<close> is not inside a \<open>try\<close>: when it throws, the updater throws
  (\<open>Inl\<close>); a falsy result returns the previous state itself. The handler pushes the
  captured piece on the array that the previous state holds as well (its copy of
  \<open>capturedPieces\<close> is shallow); the previous state is dropped, and the model returns the
  new list.
\<close>

definition handleMove ::
  "'g Engine \<Rightarrow> 'g GameState \<Rightarrow> Square \<Rightarrow> Square \<Rightarrow> Error + 'g GameState" where
  "handleMove E prev sourceSquare targetSquare =
     (case moveObj E (loadFen E (fen E (game prev))) sourceSquare targetSquare of
        Throws \<Rightarrow> Inl InvalidMove
      | Null \<Rightarrow> Inr prev
      | Moved move newGame \<Rightarrow>
          (let newCapturedPieces = pushCaptured (capturedPieces prev) move;
               tc = timeControl prev;
               newTimeControl =
                 (if isTimerRunning prev
                  then (if color move = White
                        then tc\<lparr>tc_white := tc_white tc + increment tc\<rparr>
                        else tc\<lparr>tc_black := tc_black tc + increment tc\<rparr>)
                  else tc)
           in Inr (prev\<lparr>game := newGame,
                        gameHistory := gameHistory prev @ [san move],
                        capturedPieces := newCapturedPieces,
                        lastMove := Some (sourceSquare, targetSquare),
                        selectedSquare := None,
                        legalMoves := [],
                        timeControl := newTimeControl,
                        isTimerRunning := (isTimerRunning prev \<and> \<not> isGameOver E newGame)\<rparr>)))"

text \<open>
  \<open>handleSquareClick\<close>: deselect, or move to a listed destination (the handler queues
  \<open>handleMove\<close> and returns the previous state, so the move is what results), or select a
  piece of the side to move (\<open>selectPiece\<close> is the last branch of the handler).
\<close>

definition selectPiece :: "'g Engine \<Rightarrow> 'g GameState \<Rightarrow> Square \<Rightarrow> 'g GameState" where
  "selectPiece E prev square =
     (if get E (game prev) square = Some (turn E (game prev))
      then prev\<lparr>selectedSquare := Some square,
                legalMoves := map dst (moves E (game prev) square)\<rparr>
      else prev)"

definition handleSquareClick ::
  "'g Engine \<Rightarrow> 'g GameState \<Rightarrow> Square \<Rightarrow> Error + 'g GameState" where
  "handleSquareClick E prev square =
     (if selectedSquare prev = Some square
      then Inr (prev\<lparr>selectedSquare := None, legalMoves := []\<rparr>)
      else
        (case selectedSquare prev of
           Some sel \<Rightarrow>
             if sel \<noteq> [] \<and> square \<in> set (legalMoves prev)
             then handleMove E prev sel square
             else Inr (selectPiece E prev square)
         | None \<Rightarrow> Inr (selectPiece E prev square)))"

text \<open>
  \<open>undoMove\<close>: the notation strings but the last are replayed on a new game. The result
  of each \<open>move\<close> call is ignored and the call is not inside a \<open>try\<close>: a string the
  engine throws on ends the replay and the updater with that error, a falsy result leaves
  the game as it is.
\<close>

fun replay :: "'g Engine \<Rightarrow> 'g \<Rightarrow> string list \<Rightarrow> Error + 'g" where
  "replay E g [] = Inr g"
| "replay E g (n # ns) =
     (case moveSan E g n of
        Throws \<Rightarrow> Inl InvalidMove
      | Null \<Rightarrow> replay E g ns
      | Moved _ g' \<Rightarrow> replay E g' ns)"

definition recalculateCaptured :: "Move list \<Rightarrow> CapturedPieces" where
  "recalculateCaptured ms = foldl pushCaptured \<lparr>cp_white = [], cp_black = []\<rparr> ms"

definition undoMove :: "'g Engine \<Rightarrow> 'g GameState \<Rightarrow> Error + 'g GameState" where
  "undoMove E prev =
     (if length (gameHistory prev) = 0 then Inr prev
      else
        (let newHistory = butlast (gameHistory prev)
         in case replay E (newChess E) newHistory of
              Inl e \<Rightarrow> Inl e
            | Inr newGame \<Rightarrow>
                (let hist = history E newGame;
                     newCapturedPieces = recalculateCaptured hist;
                     lastMove' =
                       (if length hist > 0 then Some (src (last hist), dst (last hist))
                        else None)
                 in Inr (prev\<lparr>game := newGame,
                              gameHistory := newHistory,
                              capturedPieces := newCapturedPieces,
                              lastMove := lastMove',
                              selectedSquare := None,
                              legalMoves := []\<rparr>))))"

definition flipBoard :: "'g GameState \<Rightarrow> 'g GameState" where
  "flipBoard prev = prev\<lparr>isFlipped := \<not> isFlipped prev\<rparr>"

definition toggleSound :: "'g GameState \<Rightarrow> 'g GameState" where
  "toggleSound prev = prev\<lparr>soundEnabled := \<not> soundEnabled prev\<rparr>"

definition toggleTimer :: "'g GameState \<Rightarrow> 'g GameState" where
  "toggleTimer prev = prev\<lparr>isTimerRunning := \<not> isTimerRunning prev\<rparr>"

definition updateTimeControl :: "TimeControl \<Rightarrow> 'g GameState \<Rightarrow> 'g GameState" where
  "updateTimeControl newTimeControl prev = prev\<lparr>timeControl := newTimeControl\<rparr>"

definition updateBoardTheme :: "string \<Rightarrow> 'g GameState \<Rightarrow> 'g GameState" where
  "updateBoardTheme theme prev = prev\<lparr>boardTheme := theme\<rparr>"

subsection \<open>The timer\<close>

text \<open>
  The interval callback of the timer effect. It returns the next state and the toasts it
  raises: \<open>TimeExpired c\<close> is the toast "Time's up!" for the side \<open>c\<close>. The effect keeps the
  interval alive only while \<open>timerActive\<close> holds. The callback writes the new time into
  the \<open>timeControl\<close> object of the previous state, which the new state shares; the model
  returns the state with the new time.
\<close>

datatype Event = TimeExpired Color

definition timerActive :: "'g Engine \<Rightarrow> 'g GameState \<Rightarrow> bool" where
  "timerActive E s = (isTimerRunning s \<and> \<not> isGameOver E (game s))"

definition tick :: "'g Engine \<Rightarrow> 'g GameState \<Rightarrow> 'g GameState \<times> Event list" where
  "tick E prev =
     (let currentPlayer = turn E (game prev); tc = timeControl prev
      in if currentPlayer = White
         then (let w = max 0 (tc_white tc - 1);
                   newState = prev\<lparr>timeControl := tc\<lparr>tc_white := w\<rparr>\<rparr>
               in if w = 0
                  then (newState\<lparr>isTimerRunning := False\<rparr>, [TimeExpired White])
                  else (newState, []))
         else (let b = max 0 (tc_black tc - 1);
                   newState = prev\<lparr>timeControl := tc\<lparr>tc_black := b\<rparr>\<rparr>
               in if b = 0
                  then (newState\<lparr>isTimerRunning := False\<rparr>, [TimeExpired Black])
                  else (newState, [])))"

subsection \<open>The component: state, the memoised \<open>resetGame\<close> and shared objects\<close>

text \<open>
  All handlers but one read the state through the updater argument \<open>prev\<close>. \<open>resetGame\<close>
  reads \<open>gameState\<close> from the render in which \<open>useCallback\<close> last created it, and its
  dependency list is \<open>[gameState.isFlipped, gameState.soundEnabled, saveGameState, toast]\<close>.
  The component therefore keeps, beside the current state, the state \<open>resetGame\<close> sees.
  \<open>render\<close> is one render of the component: \<open>useCallback\<close> creates the callback anew when a
  dependency has changed. \<open>saveGameState\<close> has an empty dependency list and never changes;
  whether \<open>toast\<close> (returned by a hook outside these sources) has changed is the argument
  \<open>toastChanged\<close>.

  The time control is a JavaScript object, and the module-level object \<open>initialTimeControl\<close>
  can be shared. The initialiser puts that object itself into a state restored from a record
  without a time control (\<open>parsed.timeControl || initialTimeControl\<close>), where the new state
  gets a copy of it. The settings dialog keeps the object it was mounted with until a preset
  or a slider replaces it, and passes the object it holds to \<open>updateTimeControl\<close>. The timer
  callback writes into the object of the state, and \<open>resetGame\<close> copies the module-level
  object as it is then. So the component also keeps
  \<^item> \<open>initialTimeControlObject\<close>, the contents of the module-level object;
  \<^item> \<open>timeControlIsInitial\<close>: the time control of the state is that very object;
  \<^item> \<open>dialogHoldsInitial\<close>: the settings dialog holds that very object.

  An error thrown by an updater is caught nowhere in the component: React unmounts it.
  \<open>unmounted\<close> records that; no handler and no timer runs after it.
\<close>

record 'g Component =
  gameState :: "'g GameState"
  resetGameSees :: "'g GameState"
  initialTimeControlObject :: TimeControl
  timeControlIsInitial :: bool
  dialogHoldsInitial :: bool
  unmounted :: bool

text \<open>
  The first render, with a state whose time control is an object of its own (the new state,
  or a state restored with a time control), and with a state restored without one.
\<close>

definition mount :: "'g GameState \<Rightarrow> 'g Component" where
  "mount s =
     \<lparr>gameState = s, resetGameSees = s,
      initialTimeControlObject = initialTimeControl,
      timeControlIsInitial = False, dialogHoldsInitial = False, unmounted = False\<rparr>"

definition mountShared :: "'g GameState \<Rightarrow> 'g Component" where
  "mountShared s =
     \<lparr>gameState = s, resetGameSees = s,
      initialTimeControlObject = initialTimeControl,
      timeControlIsInitial = True, dialogHoldsInitial = True, unmounted = False\<rparr>"

definition render :: "bool \<Rightarrow> 'g Component \<Rightarrow> 'g Component" where
  "render toastChanged c =
     (if toastChanged
         \<or> isFlipped (gameState c) \<noteq> isFlipped (resetGameSees c)
         \<or> soundEnabled (gameState c) \<noteq> soundEnabled (resetGameSees c)
      then c\<lparr>resetGameSees := gameState c\<rparr>
      else c)"

text \<open>\<open>resetGame\<close>: the time control of the new state is a copy of the module-level object.\<close>

definition resetGame :: "'g Engine \<Rightarrow> 'g Component \<Rightarrow> 'g Component" where
  "resetGame E c =
     c\<lparr>gameState :=
         \<lparr>game = newChess E,
          gameHistory = [],
          capturedPieces = \<lparr>cp_white = [], cp_black = []\<rparr>,
          lastMove = None,
          selectedSquare = None,
          legalMoves = [],
          isFlipped = isFlipped (resetGameSees c),
          soundEnabled = soundEnabled (resetGameSees c),
          timeControl = initialTimeControlObject c,
          isTimerRunning = False,
          boardTheme = boardTheme (resetGameSees c)\<rparr>,
       timeControlIsInitial := False\<rparr>"

text \<open>
  The intents of the user interface and of the timer. \<open>UpdateTimeControl t\<close> is Apply in the
  settings dialog when it holds an object of its own with the contents \<open>t\<close>;
  \<open>ReapplyTimeControl\<close> is Apply when the dialog still holds the module-level object. A tick
  arrives only while the interval is alive.
\<close>

datatype Intent =
    HandleMove Square Square
  | SquareClick Square
  | ResetGame
  | UndoMove
  | FlipBoard
  | ToggleSound
  | ToggleTimer
  | UpdateTimeControl TimeControl
  | ReapplyTimeControl
  | UpdateBoardTheme string
  | Tick

text \<open>
  An updater that spreads \<open>prev\<close> keeps the time-control object of the state (\<open>onState\<close>).
  An updater that may throw unmounts the component when it does (\<open>onUpdater\<close>);
  \<open>handleMove\<close> builds \<open>newTimeControl\<close> as a new object exactly when it commits a move,
  which is when the move history grows.
\<close>

definition onState :: "('g GameState \<Rightarrow> 'g GameState) \<Rightarrow> 'g Component \<Rightarrow> 'g Component" where
  "onState f c = c\<lparr>gameState := f (gameState c)\<rparr>"

definition onUpdater ::
  "('g GameState \<Rightarrow> Error + 'g GameState) \<Rightarrow> 'g Component \<Rightarrow> 'g Component" where
  "onUpdater f c =
     (case f (gameState c) of
        Inl e \<Rightarrow> c\<lparr>unmounted := True\<rparr>
      | Inr s \<Rightarrow>
          c\<lparr>gameState := s,
            timeControlIsInitial :=
              (timeControlIsInitial c \<and> gameHistory s = gameHistory (gameState c))\<rparr>)"

text \<open>
  \<open>dispatch\<close> runs the handler of an intent. The timer callback writes the new time into
  the object of the state: into the module-level object when the state holds that one. The
  toasts of a tick are dropped here and listed by \<open>events\<close>.
\<close>

fun handler :: "'g Engine \<Rightarrow> Intent \<Rightarrow> 'g Component \<Rightarrow> 'g Component" where
  "handler E (HandleMove a b) c = onUpdater (\<lambda>s. handleMove E s a b) c"
| "handler E (SquareClick a) c = onUpdater (\<lambda>s. handleSquareClick E s a) c"
| "handler E ResetGame c = resetGame E c"
| "handler E UndoMove c =
     (case undoMove E (gameState c) of
        Inl e \<Rightarrow> c\<lparr>unmounted := True\<rparr>
      | Inr s \<Rightarrow> c\<lparr>gameState := s\<rparr>)"
| "handler E FlipBoard c = onState flipBoard c"
| "handler E ToggleSound c = onState toggleSound c"
| "handler E ToggleTimer c = onState toggleTimer c"
| "handler E (UpdateTimeControl t) c =
     (onState (updateTimeControl t) c)\<lparr>timeControlIsInitial := False, dialogHoldsInitial := False\<rparr>"
| "handler E ReapplyTimeControl c =
     (if dialogHoldsInitial c
      then (onState (updateTimeControl (initialTimeControlObject c)) c)
             \<lparr>timeControlIsInitial := True\<rparr>
      else c)"
| "handler E (UpdateBoardTheme th) c = onState (updateBoardTheme th) c"
| "handler E Tick c =
     (if timerActive E (gameState c)
      then (onState (\<lambda>s. fst (tick E s)) c)
             \<lparr>initialTimeControlObject :=
                (if timeControlIsInitial c then timeControl (fst (tick E (gameState c)))
                 else initialTimeControlObject c)\<rparr>
      else c)"

definition dispatch :: "'g Engine \<Rightarrow> Intent \<Rightarrow> 'g Component \<Rightarrow> 'g Component" where
  "dispatch E i c = (if unmounted c then c else handler E i c)"

definition events :: "'g Engine \<Rightarrow> Intent \<Rightarrow> 'g Component \<Rightarrow> Event list" where
  "events E i c =
     (if i = Tick \<and> \<not> unmounted c \<and> timerActive E (gameState c)
      then snd (tick E (gameState c)) else [])"

text \<open>A render follows every dispatch before the next intent is taken.\<close>

definition step :: "'g Engine \<Rightarrow> bool \<times> Intent \<Rightarrow> 'g Component \<Rightarrow> 'g Component" where
  "step E ti c = render (fst ti) (dispatch E (snd ti) c)"

text \<open>A run of intents, each with the flag of the render that follows it, and its toasts.\<close>

fun run :: "'g Engine \<Rightarrow> (bool \<times> Intent) list \<Rightarrow> 'g Component \<Rightarrow> 'g Component" where
  "run E [] c = c"
| "run E (ti # tis) c = run E tis (step E ti c)"

fun runEvents :: "'g Engine \<Rightarrow> (bool \<times> Intent) list \<Rightarrow> 'g Component \<Rightarrow> Event list" where
  "runEvents E [] c = []"
| "runEvents E (ti # tis) c = events E (snd ti) c @ runEvents E tis (step E ti c)"

subsection \<open>Reading the clock and the captured pieces\<close>

definition remaining :: "Color \<Rightarrow> TimeControl \<Rightarrow> int" where
  "remaining c tc = (if c = White then tc_white tc else tc_black tc)"

definition opponent :: "Color \<Rightarrow> Color" where
  "opponent c = (if c = White then Black else White)"

definition bucket :: "Color \<Rightarrow> CapturedPieces \<Rightarrow> string list" where
  "bucket c cp = (if c = White then cp_white cp else cp_black cp)"

text \<open>The pieces captured by the moves of one side in a list of move objects, in order.\<close>

definition capturedBy :: "Color \<Rightarrow> Move list \<Rightarrow> string list" where
  "capturedBy c ms =
     concat (map (\<lambda>m. case captured m of
                         None \<Rightarrow> []
                       | Some p \<Rightarrow>
                           if color m = c
                           then [(if c = White then ''b'' else ''w'') @ toUpperCase p]
                           else []) ms)"

text \<open>
  A sequence of \<open>handleMove\<close> calls, which ends with the first call that throws, and the
  move objects the engine returned for the calls it accepted.
\<close>

fun playMoves ::
  "'g Engine \<Rightarrow> 'g GameState \<Rightarrow> (Square \<times> Square) list \<Rightarrow> Error + 'g GameState" where
  "playMoves E s [] = Inr s"
| "playMoves E s (ab # rest) =
     (case handleMove E s (fst ab) (snd ab) of
        Inl e \<Rightarrow> Inl e
      | Inr s' \<Rightarrow> playMoves E s' rest)"

fun committed :: "'g Engine \<Rightarrow> 'g GameState \<Rightarrow> (Square \<times> Square) list \<Rightarrow> Move list" where
  "committed E s [] = []"
| "committed E s (ab # rest) =
     (case handleMove E s (fst ab) (snd ab) of
        Inl e \<Rightarrow> []
      | Inr s' \<Rightarrow>
          (case moveObj E (loadFen E (fen E (game s))) (fst ab) (snd ab) of
             Moved m _ \<Rightarrow> m # committed E s' rest
           | _ \<Rightarrow> committed E s' rest))"

text \<open>The engine accepts each string of a list in turn, starting from a game.\<close>

fun accepts :: "'g Engine \<Rightarrow> 'g \<Rightarrow> string list \<Rightarrow> bool" where
  "accepts E g [] = True"
| "accepts E g (n # ns) =
     (case moveSan E g n of Moved _ g' \<Rightarrow> accepts E g' ns | _ \<Rightarrow> False)"

subsection \<open>What the component relies on in the rules engine\<close>

text \<open>
  A new game has no history and every accepted notation string adds its move to it; a move
  accepted on the FEN copy of a position is accepted by its notation on every game in that
  position, by the same side, with the same capture and the same resulting position.
\<close>

definition keepsHistory :: "'g Engine \<Rightarrow> bool" where
  "keepsHistory E =
     (history E (newChess E) = []
      \<and> (\<forall>g n m g'. moveSan E g n = Moved m g' \<longrightarrow> history E g' = history E g @ [m]))"

definition replaysNotation :: "'g Engine \<Rightarrow> bool" where
  "replaysNotation E =
     (\<forall>g h a b m g'.
        fen E h = fen E g \<and> moveObj E (loadFen E (fen E g)) a b = Moved m g'
        \<longrightarrow> (\<exists>m' h'. moveSan E h (san m) = Moved m' h'
                     \<and> color m' = color m \<and> captured m' = captured m
                     \<and> src m' = src m \<and> dst m' = dst m
                     \<and> fen E h' = fen E g'))"

subsection \<open>The initialiser of the state\<close>

text \<open>
  The initialiser reads the key \<open>chess-game-state\<close> of \<open>localStorage\<close> (\<open>None\<close> when the key
  is missing), parses it with \<open>JSON.parse\<close> (the argument \<open>parse\<close>, \<open>None\<close> when it throws)
  and copies the fields of the parsed value without checking them. \<open>restoreState\<close> is the
  body of the \<open>try\<close> after the parse: \<open>Thrown\<close> when it throws (reading \<open>parsed.pgn\<close> of
  \<open>null\<close>, or \<open>loadPgn\<close>), \<open>Untyped\<close> when a copied field does not have the type that
  \<open>GameState\<close> declares for it (a number that is not an integer counts as such here),
  \<open>Typed\<close> otherwise.
\<close>

definition truthy :: "json option \<Rightarrow> bool" where
  "truthy v =
     (case v of
        None \<Rightarrow> False
      | Some JNull \<Rightarrow> False
      | Some (JBool b) \<Rightarrow> b
      | Some (JNum n) \<Rightarrow> n \<noteq> 0
      | Some JFrac \<Rightarrow> True
      | Some (JStr t) \<Rightarrow> t \<noteq> []
      | Some (JArr _) \<Rightarrow> True
      | Some (JObj _) \<Rightarrow> True)"

text \<open>Reading a property; of two equal keys \<open>JSON.parse\<close> keeps the later one.\<close>

definition getProp :: "json \<Rightarrow> string \<Rightarrow> json option" where
  "getProp v k = (case v of JObj kvs \<Rightarrow> map_of (rev kvs) k | _ \<Rightarrow> None)"

definition asString :: "json \<Rightarrow> string option" where
  "asString v = (case v of JStr t \<Rightarrow> Some t | _ \<Rightarrow> None)"

definition asStrings :: "json option \<Rightarrow> string list option" where
  "asStrings v =
     (case v of
        Some (JArr xs) \<Rightarrow>
          if list_all (\<lambda>x. asString x \<noteq> None) xs
          then Some (concat (map (\<lambda>x. case asString x of Some t \<Rightarrow> [t] | None \<Rightarrow> []) xs))
          else None
      | _ \<Rightarrow> None)"

definition asCaptured :: "json option \<Rightarrow> CapturedPieces option" where
  "asCaptured v =
     (case v of
        Some (JObj kvs) \<Rightarrow>
          (case (asStrings (getProp (JObj kvs) ''white''), asStrings (getProp (JObj kvs) ''black'')) of
             (Some w, Some b) \<Rightarrow> Some \<lparr>cp_white = w, cp_black = b\<rparr>
           | _ \<Rightarrow> None)
      | _ \<Rightarrow> None)"

definition asLastMove :: "json option \<Rightarrow> (Square \<times> Square) option option" where
  "asLastMove v =
     (case v of
        Some JNull \<Rightarrow> Some None
      | Some (JObj kvs) \<Rightarrow>
          (case (getProp (JObj kvs) ''from'', getProp (JObj kvs) ''to'') of
             (Some (JStr a), Some (JStr b)) \<Rightarrow> Some (Some (a, b))
           | _ \<Rightarrow> None)
      | _ \<Rightarrow> None)"

definition asTimeControl :: "json option \<Rightarrow> TimeControl option" where
  "asTimeControl v =
     (if \<not> truthy v then Some initialTimeControl
      else
        (case v of
           Some (JObj kvs) \<Rightarrow>
             (case (getProp (JObj kvs) ''white'', getProp (JObj kvs) ''black'',
                    getProp (JObj kvs) ''increment'') of
                (Some (JNum w), Some (JNum b), Some (JNum i)) \<Rightarrow>
                  Some \<lparr>tc_white = w, tc_black = b, increment = i\<rparr>
              | _ \<Rightarrow> None)
         | _ \<Rightarrow> None))"

definition asFlipped :: "json option \<Rightarrow> bool option" where
  "asFlipped v =
     (if \<not> truthy v then Some False
      else (case v of Some (JBool b) \<Rightarrow> Some b | _ \<Rightarrow> None))"

definition asTheme :: "json option \<Rightarrow> string option" where
  "asTheme v =
     (if \<not> truthy v then Some ''classic''
      else (case v of Some (JStr t) \<Rightarrow> Some t | _ \<Rightarrow> None))"

datatype 'g Restored = Thrown | Untyped | Typed "'g GameState"

definition restoreState :: "'g Engine \<Rightarrow> json \<Rightarrow> 'g Restored" where
  "restoreState E parsed =
     (if parsed = JNull then Thrown
      else
        (case loadPgn E (getProp parsed ''pgn'') of
           None \<Rightarrow> Thrown
         | Some g \<Rightarrow>
             (case (asStrings (getProp parsed ''gameHistory''),
                    asCaptured (getProp parsed ''capturedPieces''),
                    asLastMove (getProp parsed ''lastMove''),
                    asFlipped (getProp parsed ''isFlipped''),
                    asTimeControl (getProp parsed ''timeControl''),
                    asTheme (getProp parsed ''boardTheme'')) of
                (Some h, Some cp, Some lm, Some fl, Some tc, Some th) \<Rightarrow>
                  Typed \<lparr>game = g,
                         gameHistory = h,
                         capturedPieces = cp,
                         lastMove = lm,
                         selectedSquare = None,
                         legalMoves = [],
                         isFlipped = fl,
                         soundEnabled = (getProp parsed ''soundEnabled'' \<noteq> Some (JBool False)),
                         timeControl = tc,
                         isTimerRunning = False,
                         boardTheme = th\<rparr>
              | _ \<Rightarrow> Untyped)))"

datatype 'g Initial = Session "'g GameState" | UntypedState

definition initialGameState ::
  "'g Engine \<Rightarrow> (string \<Rightarrow> json option) \<Rightarrow> string option \<Rightarrow> 'g Initial" where
  "initialGameState E parse savedGame =
     (case savedGame of
        None \<Rightarrow> Session (freshState E)
      | Some txt \<Rightarrow>
          if txt = [] then Session (freshState E)
          else
            (case parse txt of
               None \<Rightarrow> Session (freshState E)
             | Some parsed \<Rightarrow>
                 (case restoreState E parsed of
                    Thrown \<Rightarrow> Session (freshState E)
                  | Untyped \<Rightarrow> UntypedState
                  | Typed s \<Rightarrow> Session s)))"

text \<open>
  Whether the state the initialiser returns holds the module-level object as its time
  control (line \<open>timeControl: parsed.timeControl || initialTimeControl\<close>), and the first
  render of the component on the stored record.
\<close>

definition holdsInitialTimeControl ::
  "'g Engine \<Rightarrow> (string \<Rightarrow> json option) \<Rightarrow> string option \<Rightarrow> bool" where
  "holdsInitialTimeControl E parse savedGame =
     (case savedGame of
        None \<Rightarrow> False
      | Some txt \<Rightarrow>
          (case parse txt of
             None \<Rightarrow> False
           | Some parsed \<Rightarrow>
               txt \<noteq> []
               \<and> (case restoreState E parsed of Typed _ \<Rightarrow> True | _ \<Rightarrow> False)
               \<and> \<not> truthy (getProp parsed ''timeControl'')))"

definition firstRender ::
  "'g Engine \<Rightarrow> (string \<Rightarrow> json option) \<Rightarrow> string option \<Rightarrow> 'g Component option" where
  "firstRender E parse savedGame =
     (case initialGameState E parse savedGame of
        UntypedState \<Rightarrow> None
      | Session s \<Rightarrow>
          Some (if holdsInitialTimeControl E parse savedGame then mountShared s else mount s))"

subsection \<open>The clock along a run\<close>

definition clockNonNeg :: "TimeControl \<Rightarrow> bool" where
  "clockNonNeg tc = (0 \<le> tc_white tc \<and> 0 \<le> tc_black tc \<and> 0 \<le> increment tc)"

text \<open>
  The settings dialog sends a preset, the values of its sliders (30 to 3600 seconds, an
  increment of 0 to 30 seconds) or the time control it was opened with: never a negative
  number.
\<close>

definition fromDialog :: "Intent \<Rightarrow> bool" where
  "fromDialog i = (case i of UpdateTimeControl t \<Rightarrow> clockNonNeg t | _ \<Rightarrow> True)"

definition countExpired :: "Color \<Rightarrow> Event list \<Rightarrow> nat" where
  "countExpired c evs = length (filter (\<lambda>e. e = TimeExpired c) evs)"

subsection \<open>A rules engine that answers from a table\<close>

text \<open>
  The statements below hold for every engine. To run them, \<open>bookEngine\<close> is an engine that
  knows the positions of three short games and answers as the rules of chess do there: the
  opening 1. e4 d5 2. exd5 Qxd5, the mate 1. f3 e5 2. g4 Qh4, and an ending in which the
  white king takes the last pawn (Kxe5, then Kd7), which leaves the two kings alone: the game
  is over by insufficient material although both kings have moves. A position is its FEN
  string; a game is a position and the moves made on it. On every move outside the table
  the engine throws, as chess.js does on a move that is not legal. The piece on a square and
  the side to move are read from the FEN string.
\<close>

record Row =
  before :: string
  played :: Move
  after :: string

type_synonym BookGame = "string \<times> Move list"

fun splitOn :: "char \<Rightarrow> string \<Rightarrow> string list" where
  "splitOn d [] = [[]]"
| "splitOn d (c # cs) =
     (if c = d then [] # splitOn d cs
      else (case splitOn d cs of r # rs \<Rightarrow> (c # r) # rs | [] \<Rightarrow> [[c]]))"

fun indexOf :: "'a \<Rightarrow> 'a list \<Rightarrow> nat option" where
  "indexOf x [] = None"
| "indexOf x (y # ys) = (if x = y then Some 0 else map_option Suc (indexOf x ys))"

definition expandRank :: "string \<Rightarrow> char option list" where
  "expandRank r =
     concat (map (\<lambda>c. case indexOf c ''12345678'' of
                         Some k \<Rightarrow> replicate (Suc k) None
                       | None \<Rightarrow> [Some c]) r)"

definition fenPieceAt :: "string \<Rightarrow> Square \<Rightarrow> char option" where
  "fenPieceAt f sq =
     (case sq of
        [fc, rc] \<Rightarrow>
          (case (indexOf fc ''abcdefgh'', indexOf rc ''87654321'') of
             (Some i, Some j) \<Rightarrow>
               (let ranks = splitOn (CHR ''/'') (takeWhile (\<lambda>c. c \<noteq> CHR '' '') f)
                in if j < length ranks \<and> i < length (expandRank (ranks ! j))
                   then expandRank (ranks ! j) ! i else None)
           | _ \<Rightarrow> None)
      | _ \<Rightarrow> None)"

definition fenTurn :: "string \<Rightarrow> Color" where
  "fenTurn f =
     (case dropWhile (\<lambda>c. c \<noteq> CHR '' '') f of
        _ # c # _ \<Rightarrow> if c = CHR ''b'' then Black else White
      | _ \<Rightarrow> White)"

definition pieceColor :: "char \<Rightarrow> Color" where
  "pieceColor c = (if c \<in> set ''PNBRQK'' then White else Black)"

definition startFen :: string where
  "startFen = ''rnbqkbnr/pppppppp/8/8/8/8/PPPPPPPP/RNBQKBNR w KQkq - 0 1''"

definition mv :: "Color \<Rightarrow> Square \<Rightarrow> Square \<Rightarrow> string \<Rightarrow> PieceSymbol option \<Rightarrow> Move" where
  "mv c a b n k = \<lparr>color = c, src = a, dst = b, san = n, captured = k\<rparr>"

definition bookRows :: "Row list" where
  "bookRows =
    [\<lparr>before = startFen,
      played = mv White ''e2'' ''e4'' ''e4'' None,
      after = ''rnbqkbnr/pppppppp/8/8/4P3/8/PPPP1PPP/RNBQKBNR b KQkq - 0 1''\<rparr>,
     \<lparr>before = ''rnbqkbnr/pppppppp/8/8/4P3/8/PPPP1PPP/RNBQKBNR b KQkq - 0 1'',
      played = mv Black ''d7'' ''d5'' ''d5'' None,
      after = ''rnbqkbnr/ppp1pppp/8/3p4/4P3/8/PPPP1PPP/RNBQKBNR w KQkq - 0 2''\<rparr>,
     \<lparr>before = ''rnbqkbnr/ppp1pppp/8/3p4/4P3/8/PPPP1PPP/RNBQKBNR w KQkq - 0 2'',
      played = mv White ''e4'' ''d5'' ''exd5'' (Some Pawn),
      after = ''rnbqkbnr/ppp1pppp/8/3P4/8/8/PPPP1PPP/RNBQKBNR b KQkq - 0 2''\<rparr>,
     \<lparr>before = ''rnbqkbnr/ppp1pppp/8/3P4/8/8/PPPP1PPP/RNBQKBNR b KQkq - 0 2'',
      played = mv Black ''d8'' ''d5'' ''Qxd5'' (Some Pawn),
      after = ''rnb1kbnr/ppp1pppp/8/3q4/8/8/PPPP1PPP/RNBQKBNR w KQkq - 0 3''\<rparr>,
     \<lparr>before = startFen,
      played = mv White ''f2'' ''f3'' ''f3'' None,
      after = ''rnbqkbnr/pppppppp/8/8/8/5P2/PPPPP1PP/RNBQKBNR b KQkq - 0 1''\<rparr>,
     \<lparr>before = ''rnbqkbnr/pppppppp/8/8/8/5P2/PPPPP1PP/RNBQKBNR b KQkq - 0 1'',
      played = mv Black ''e7'' ''e5'' ''e5'' None,
      after = ''rnbqkbnr/pppp1ppp/8/4p3/8/5P2/PPPPP1PP/RNBQKBNR w KQkq - 0 2''\<rparr>,
     \<lparr>before = ''rnbqkbnr/pppp1ppp/8/4p3/8/5P2/PPPPP1PP/RNBQKBNR w KQkq - 0 2'',
      played = mv White ''g2'' ''g4'' ''g4'' None,
      after = ''rnbqkbnr/pppp1ppp/8/4p3/6P1/5P2/PPPPP2P/RNBQKBNR b KQkq - 0 2''\<rparr>,
     \<lparr>before = ''rnbqkbnr/pppp1ppp/8/4p3/6P1/5P2/PPPPP2P/RNBQKBNR b KQkq - 0 2'',
      played = mv Black ''d8'' ''h4'' ''Qh4#'' None,
      after = ''rnb1kbnr/pppp1ppp/8/4p3/6Pq/5P2/PPPPP2P/RNBQKBNR w KQkq - 1 3''\<rparr>,
     \<lparr>before = ''4k3/8/8/4p3/4K3/8/8/8 w - - 0 1'',
      played = mv White ''e4'' ''e5'' ''Kxe5'' (Some Pawn),
      after = ''4k3/8/8/4K3/8/8/8/8 b - - 0 1''\<rparr>,
     \<lparr>before = ''4k3/8/8/4K3/8/8/8/8 b - - 0 1'',
      played = mv Black ''e8'' ''d7'' ''Kd7'' None,
      after = ''8/3k4/8/4K3/8/8/8/8 w - - 1 2''\<rparr>]"

definition bookOver :: "string list" where
  "bookOver =
    [''rnb1kbnr/pppp1ppp/8/4p3/6Pq/5P2/PPPPP2P/RNBQKBNR w KQkq - 1 3'',
     ''4k3/8/8/4K3/8/8/8/8 b - - 0 1'',
     ''8/3k4/8/4K3/8/8/8/8 w - - 1 2'']"

definition bookCheck :: "string list" where
  "bookCheck = [''rnb1kbnr/pppp1ppp/8/4p3/6Pq/5P2/PPPPP2P/RNBQKBNR w KQkq - 1 3'']"

definition bookStep :: "(Row \<Rightarrow> bool) \<Rightarrow> BookGame \<Rightarrow> BookGame MoveResult" where
  "bookStep sel g =
     (case find (\<lambda>r. before r = fst g \<and> sel r) bookRows of
        None \<Rightarrow> Throws
      | Some r \<Rightarrow> Moved (played r) (after r, snd g @ [played r]))"

definition bookEngine :: "BookGame Engine" where
  "bookEngine =
     \<lparr>newChess = (startFen, []),
      fen = fst,
      loadFen = (\<lambda>f. (f, [])),
      moveObj = (\<lambda>g a b. bookStep (\<lambda>r. src (played r) = a \<and> dst (played r) = b) g),
      moveSan = (\<lambda>g n. bookStep (\<lambda>r. san (played r) = n) g),
      history = snd,
      isCheck = (\<lambda>g. fst g \<in> set bookCheck),
      isGameOver = (\<lambda>g. fst g \<in> set bookOver),
      turn = (\<lambda>g. fenTurn (fst g)),
      get = (\<lambda>g a. map_option pieceColor (fenPieceAt (fst g) a)),
      moves = (\<lambda>g a. map played (filter (\<lambda>r. before r = fst g \<and> src (played r) = a) bookRows)),
      loadPgn = (\<lambda>v. if v = Some (JStr []) then Some (startFen, []) else None)\<rparr>"

subsection \<open>Sessions used to run the statements\<close>

text \<open>The fields of a session that hold the game and the clock.\<close>

definition sessionCore ::
  "'g GameState \<Rightarrow> 'g \<times> string list \<times> CapturedPieces \<times> (Square \<times> Square) option \<times> TimeControl \<times> bool" where
  "sessionCore s =
     (game s, gameHistory s, capturedPieces s, lastMove s, timeControl s, isTimerRunning s)"

text \<open>The preset "Blitz (3+2)" of the settings dialog.\<close>

definition blitz :: TimeControl where
  "blitz = \<lparr>tc_white = 180, tc_black = 180, increment = 2\<rparr>"

text \<open>A new session in which the user has chosen the blitz preset and the wooden board.\<close>

definition woodenBlitz :: "BookGame Component" where
  "woodenBlitz =
     run bookEngine [(False, UpdateTimeControl blitz), (False, UpdateBoardTheme ''wooden'')]
       (mount (freshState bookEngine))"

text \<open>A new session with White's clock at \<open>w\<close> seconds, increment \<open>i\<close>, running or not.\<close>

definition clockAt :: "int \<Rightarrow> int \<Rightarrow> bool \<Rightarrow> BookGame GameState" where
  "clockAt w i r =
     (freshState bookEngine)
       \<lparr>timeControl := \<lparr>tc_white = w, tc_black = 600, increment = i\<rparr>, isTimerRunning := r\<rparr>"

text \<open>The session \<open>clockAt 598 5 True\<close> after White's move e4: the increment is credited.\<close>

definition timedAfterE4 :: "BookGame GameState" where
  "timedAfterE4 =
     (clockAt 603 5 True)
       \<lparr>game := (''rnbqkbnr/pppppppp/8/8/4P3/8/PPPP1PPP/RNBQKBNR b KQkq - 0 1'',
                 [mv White ''e2'' ''e4'' ''e4'' None]),
        gameHistory := [''e4''],
        lastMove := Some (''e2'', ''e4'')\<rparr>"

text \<open>
  A session with the board flipped and the sound off, after one move and with the timer
  started.
\<close>

definition flippedMuted :: "BookGame Component" where
  "flippedMuted =
     run bookEngine
       [(False, FlipBoard), (False, ToggleSound), (False, HandleMove ''e2'' ''e4''),
        (False, ToggleTimer)]
       (mount (freshState bookEngine))"

text \<open>
  The opening 1. e4 d5 2. exd5, in which White takes a pawn, and the session after it.
\<close>

definition openingCapture :: "(Square \<times> Square) list" where
  "openingCapture = [(''e2'', ''e4''), (''d7'', ''d5''), (''e4'', ''d5'')]"

definition afterOpening :: "BookGame GameState" where
  "afterOpening =
     (freshState bookEngine)
       \<lparr>game := (''rnbqkbnr/ppp1pppp/8/3P4/8/8/PPPP1PPP/RNBQKBNR b KQkq - 0 2'',
                 [mv White ''e4'' ''d5'' ''exd5'' (Some Pawn)]),
        gameHistory := [''e4'', ''d5'', ''exd5''],
        capturedPieces := \<lparr>cp_white = [''bP''], cp_black = []\<rparr>,
        lastMove := Some (''e4'', ''d5'')\<rparr>"

text \<open>
  The session after 1. f3 e5 2. g4, with the timer started: Black mates with the queen on h4.
\<close>

definition beforeMate :: "BookGame GameState" where
  "beforeMate =
     (freshState bookEngine)
       \<lparr>game := (''rnbqkbnr/pppp1ppp/8/4p3/6P1/5P2/PPPPP2P/RNBQKBNR b KQkq - 0 2'',
                 [mv White ''g2'' ''g4'' ''g4'' None]),
        gameHistory := [''f3'', ''e5'', ''g4''],
        lastMove := Some (''g2'', ''g4''),
        isTimerRunning := True\<rparr>"




text \<open>
  A component restored from a record without a time control, with the timer started, and
  the three seconds that pass in it.
\<close>

definition sharedClock :: "BookGame Component" where
  "sharedClock = mountShared ((freshState bookEngine)\<lparr>isTimerRunning := True\<rparr>)"

definition threeTicks :: "(bool \<times> Intent) list" where
  "threeTicks = [(False, Tick), (False, Tick), (False, Tick)]"

text \<open>A parser that reads the three literals of JSON and nothing else.\<close>

definition literalParse :: "string \<Rightarrow> json option" where
  "literalParse txt =
     (if txt = ''null'' then Some JNull
      else if txt = ''true'' then Some (JBool True)
      else if txt = ''false'' then Some (JBool False)
      else None)"

text \<open>
  Runs of a new session: the timer is started and White's ten minutes run out; after that the
  timer is started again and one more second passes. And: the blitz preset is chosen, the
  timer started, and one second passes.
\<close>

definition flagFall :: "(bool \<times> Intent) list" where
  "flagFall = (False, ToggleTimer) # replicate 600 (False, Tick)"

definition restartAtZero :: "(bool \<times> Intent) list" where
  "restartAtZero = flagFall @ [(False, ToggleTimer), (False, Tick)]"

definition blitzTick :: "(bool \<times> Intent) list" where
  "blitzTick = [(False, UpdateTimeControl blitz), (False, ToggleTimer), (False, Tick)]"

subsection \<open>What holds along a run\<close>

text \<open>
  Replaying the move history of a session on a new game succeeds and gives the position of
  the session, and the captured pieces computed from the replayed game are those of the
  session.
\<close>

definition replayAgrees :: "'g Engine \<Rightarrow> 'g GameState \<Rightarrow> bool" where
  "replayAgrees E s =
     (case replay E (newChess E) (gameHistory s) of
        Inl e \<Rightarrow> False
      | Inr g \<Rightarrow>
          fen E g = fen E (game s)
          \<and> recalculateCaptured (history E g) = capturedPieces s)"

text \<open>
  The time control of the state is an object of its own, the settings dialog does not hold
  the module-level object, and that object has the contents it was declared with. This is
  so in a component that starts with the new session or with a restored session that has a
  time control, and it stays so.
\<close>

definition ownTimeControl :: "'g Component \<Rightarrow> bool" where
  "ownTimeControl c =
     (\<not> timeControlIsInitial c \<and> \<not> dialogHoldsInitial c
      \<and> initialTimeControlObject c = initialTimeControl)"

section \<open>Properties\<close>

subsection \<open>Helper facts\<close>

lemmas book_defs =
  bookEngine_def bookStep_def bookRows_def startFen_def mv_def bookOver_def bookCheck_def

lemma gameState_render [simp]: "gameState (render t c) = gameState c"
  by (simp add: render_def)

lemma objects_render [simp]:
  "initialTimeControlObject (render t c) = initialTimeControlObject c"
  "timeControlIsInitial (render t c) = timeControlIsInitial c"
  "dialogHoldsInitial (render t c) = dialogHoldsInitial c"
  "unmounted (render t c) = unmounted c"
  by (simp_all add: render_def)

lemma render_in_step:
  "isFlipped (resetGameSees (render t c)) = isFlipped (gameState c)
   \<and> soundEnabled (resetGameSees (render t c)) = soundEnabled (gameState c)"
  by (auto simp: render_def)

lemma ownTimeControl_handler:
  "ownTimeControl c \<Longrightarrow> ownTimeControl (handler E i c)"
  by (cases i)
    (auto simp: ownTimeControl_def onUpdater_def onState_def resetGame_def
          split: sum.splits)

lemma ownTimeControl_step: "ownTimeControl c \<Longrightarrow> ownTimeControl (step E ti c)"
  using ownTimeControl_handler [of c E "snd ti"]
  by (simp add: step_def dispatch_def ownTimeControl_def)

lemma ownTimeControl_run: "ownTimeControl c \<Longrightarrow> ownTimeControl (run E tis c)"
  by (induction tis arbitrary: c) (simp_all add: ownTimeControl_step)

lemma ownTimeControl_mount: "ownTimeControl (mount s)"
  by (simp add: ownTimeControl_def mount_def)

lemma flippedMuted_state:
  "isFlipped (gameState flippedMuted) \<and> \<not> soundEnabled (gameState flippedMuted)
   \<and> gameHistory (gameState flippedMuted) = [''e4'']
   \<and> isTimerRunning (gameState flippedMuted)"
  by (simp add: flippedMuted_def step_def dispatch_def onState_def onUpdater_def flipBoard_def
      toggleSound_def toggleTimer_def handleMove_def mount_def freshState_def render_def
      book_defs)

text \<open>
  A component started from a record without a time control shares the module-level object
  with its state: three ticks of the timer count down in that object, and \<open>resetGame\<close>
  then copies it as it is, with White at 597 seconds.
\<close>

lemma shared_object_reset:
  "tc_white (timeControl (gameState (run bookEngine threeTicks sharedClock))) = 597
   \<and> tc_white (initialTimeControlObject (run bookEngine threeTicks sharedClock)) = 597
   \<and> timeControl (gameState (step bookEngine (False, ResetGame)
                                (run bookEngine threeTicks sharedClock)))
       = \<lparr>tc_white = 597, tc_black = 600, increment = 0\<rparr>"
  by (simp add: threeTicks_def sharedClock_def mountShared_def step_def dispatch_def onState_def
      timerActive_def tick_def Let_def render_def resetGame_def freshState_def
      initialTimeControl_def book_defs fenTurn_def)

lemma book_e2e4:
  "moveObj bookEngine (loadFen bookEngine (fen bookEngine (game (clockAt w i r)))) ''e2'' ''e4''
     = Moved (mv White ''e2'' ''e4'' ''e4'' None)
             (''rnbqkbnr/pppppppp/8/8/4P3/8/PPPP1PPP/RNBQKBNR b KQkq - 0 1'',
              [mv White ''e2'' ''e4'' ''e4'' None])"
  by (simp add: clockAt_def freshState_def book_defs)

lemma timed_e4:
  "handleMove bookEngine (clockAt 598 5 True) ''e2'' ''e4'' = Inr timedAfterE4"
  by (simp add: handleMove_def timedAfterE4_def clockAt_def freshState_def book_defs
      pushCaptured_def)

lemma capturedBy_Nil [simp]: "capturedBy c [] = []"
  by (simp add: capturedBy_def)

lemma capturedBy_append [simp]: "capturedBy c (ms @ ns) = capturedBy c ms @ capturedBy c ns"
  by (simp add: capturedBy_def)

lemma bucket_pushCaptured:
  "bucket c (pushCaptured cp m) = bucket c cp @ capturedBy c [m]"
  by (cases c; cases "color m")
    (auto simp: bucket_def pushCaptured_def capturedBy_def Let_def split: option.splits)



lemma replay_append:
  "replay E g (ns @ ms) = (case replay E g ns of Inl e \<Rightarrow> Inl e | Inr g' \<Rightarrow> replay E g' ms)"
  by (induction ns arbitrary: g) (auto split: MoveResult.splits)


lemma book_history_new: "history bookEngine (newChess bookEngine) = []"
  by (simp add: bookEngine_def)

lemma bookStep_Moved:
  assumes "bookStep sel g = Moved m g'"
  obtains r where "r \<in> set bookRows" "before r = fst g" "sel r" "m = played r"
    "g' = (after r, snd g @ [played r])"
proof -
  from assms obtain r where f: "find (\<lambda>r. before r = fst g \<and> sel r) bookRows = Some r"
    and m: "m = played r" and g': "g' = (after r, snd g @ [played r])"
    by (auto simp: bookStep_def split: option.splits)
  from f have "r \<in> set bookRows" "before r = fst g" "sel r"
    by (auto simp: find_Some_iff)
  with m g' that show thesis by blast
qed

lemma book_rows_notation:
  "\<forall>r \<in> set bookRows.
     find (\<lambda>r'. before r' = before r \<and> san (played r') = san (played r)) bookRows = Some r"
  by (simp add: book_defs)

lemma book_keepsHistory: "keepsHistory bookEngine"
  unfolding keepsHistory_def
proof (intro conjI allI impI)
  show "history bookEngine (newChess bookEngine) = []" by (rule book_history_new)
next
  fix g :: BookGame and n m g'
  assume "moveSan bookEngine g n = Moved m g'"
  then have "bookStep (\<lambda>r. san (played r) = n) g = Moved m g'"
    by (simp add: bookEngine_def)
  then show "history bookEngine g' = history bookEngine g @ [m]"
    by (elim bookStep_Moved) (simp add: bookEngine_def)
qed

lemma book_replaysNotation: "replaysNotation bookEngine"
  unfolding replaysNotation_def
proof (intro allI impI, elim conjE)
  fix g h :: BookGame and a b m g'
  assume same: "fen bookEngine h = fen bookEngine g"
    and mv: "moveObj bookEngine (loadFen bookEngine (fen bookEngine g)) a b = Moved m g'"
  from mv have "bookStep (\<lambda>r. src (played r) = a \<and> dst (played r) = b) (fst g, []) = Moved m g'"
    by (simp add: bookEngine_def)
  then obtain r where r: "r \<in> set bookRows" "before r = fst g" "m = played r"
    "g' = (after r, [played r])"
    by (elim bookStep_Moved) auto
  from same have fh: "fst h = fst g" by (simp add: bookEngine_def)
  from r book_rows_notation
  have "find (\<lambda>r'. before r' = fst h \<and> san (played r') = san m) bookRows = Some r"
    using fh by auto
  then have "moveSan bookEngine h (san m) = Moved m (after r, snd h @ [m])"
    using r by (simp add: bookEngine_def bookStep_def)
  moreover have "fen bookEngine (after r, snd h @ [m]) = fen bookEngine g'"
    using r by (simp add: bookEngine_def)
  ultimately show "\<exists>m' h'. moveSan bookEngine h (san m) = Moved m' h'
      \<and> color m' = color m \<and> captured m' = captured m \<and> src m' = src m \<and> dst m' = dst m
      \<and> fen bookEngine h' = fen bookEngine g'"
    by blast
qed

lemma play_opening:
  "playMoves bookEngine (freshState bookEngine) openingCapture = Inr afterOpening"
  by (simp add: openingCapture_def afterOpening_def handleMove_def freshState_def book_defs
      pushCaptured_def toUpperCase_def)


lemma undo_timed:
  "undoMove bookEngine timedAfterE4 = Inr (clockAt 603 5 True)"
  by (simp add: timedAfterE4_def clockAt_def undoMove_def recalculateCaptured_def
      freshState_def book_defs)




lemma pushCaptured_cong:
  "color m' = color m \<Longrightarrow> captured m' = captured m \<Longrightarrow> pushCaptured cp m' = pushCaptured cp m"
  by (cases "captured m") (simp_all add: pushCaptured_def)

lemma recalculateCaptured_snoc:
  "recalculateCaptured (ms @ [m]) = pushCaptured (recalculateCaptured ms) m"
  by (simp add: recalculateCaptured_def)

lemma replayAgrees_fresh: "keepsHistory E \<Longrightarrow> replayAgrees E (freshState E)"
  by (simp add: replayAgrees_def keepsHistory_def freshState_def recalculateCaptured_def)

lemma handleMove_cases:
  assumes "handleMove E s a b = Inr s'"
  obtains (null) "moveObj E (loadFen E (fen E (game s))) a b = Null" "s' = s"
  | (moved) m g' where "moveObj E (loadFen E (fen E (game s))) a b = Moved m g'"
      "game s' = g'" "gameHistory s' = gameHistory s @ [san m]"
      "capturedPieces s' = pushCaptured (capturedPieces s) m"
  using assms
  by (cases "moveObj E (loadFen E (fen E (game s))) a b")
    (auto simp: handleMove_def Let_def)

lemma replayAgrees_handleMove:
  assumes k: "keepsHistory E" and n: "replaysNotation E" and inv: "replayAgrees E s"
    and hm: "handleMove E s a b = Inr s'"
  shows "replayAgrees E s'"
  using hm
proof (cases rule: handleMove_cases)
  case null
  with inv show ?thesis by simp
next
  case (moved m g')
  from inv obtain h where h: "replay E (newChess E) (gameHistory s) = Inr h"
    and fh: "fen E h = fen E (game s)"
    and ch: "recalculateCaptured (history E h) = capturedPieces s"
    by (auto simp: replayAgrees_def split: sum.splits)
  from n fh moved(1) obtain m' h' where
    r: "moveSan E h (san m) = Moved m' h'" "color m' = color m" "captured m' = captured m"
       "fen E h' = fen E g'"
    unfolding replaysNotation_def by blast
  from k r(1) have hist: "history E h' = history E h @ [m']"
    unfolding keepsHistory_def by blast
  have rep: "replay E (newChess E) (gameHistory s @ [san m]) = Inr h'"
    using h r(1) by (simp add: replay_append)
  have cap: "recalculateCaptured (history E h') = pushCaptured (capturedPieces s) m"
    using hist ch pushCaptured_cong [OF r(2,3)]
    by (simp add: recalculateCaptured_snoc)
  show ?thesis
    unfolding replayAgrees_def moved(2,3,4) rep using cap r(4) by simp
qed

lemma replayAgrees_playMoves:
  "keepsHistory E \<Longrightarrow> replaysNotation E \<Longrightarrow> replayAgrees E s
   \<Longrightarrow> playMoves E s ms = Inr s' \<Longrightarrow> replayAgrees E s'"
proof (induction ms arbitrary: s)
  case Nil
  then show ?case by simp
next
  case (Cons ab rest)
  from Cons.prems(4) obtain s1 where
    s1: "handleMove E s (fst ab) (snd ab) = Inr s1" and p: "playMoves E s1 rest = Inr s'"
    by (auto split: sum.splits)
  from Cons.prems(1,2,3) s1 have "replayAgrees E s1" by (rule replayAgrees_handleMove)
  with Cons.IH Cons.prems(1,2) p show ?case by blast
qed

lemma bucket_playMoves:
  "playMoves E s ms = Inr s'
   \<Longrightarrow> bucket c (capturedPieces s') = bucket c (capturedPieces s) @ capturedBy c (committed E s ms)"
proof (induction ms arbitrary: s)
  case Nil
  then show ?case by simp
next
  case (Cons ab rest)
  from Cons.prems obtain s1 where
    s1: "handleMove E s (fst ab) (snd ab) = Inr s1" and p: "playMoves E s1 rest = Inr s'"
    by (auto split: sum.splits)
  from Cons.IH [OF p] have ih: "bucket c (capturedPieces s')
      = bucket c (capturedPieces s1) @ capturedBy c (committed E s1 rest)" .
  from s1 show ?case
  proof (cases rule: handleMove_cases)
    case null
    with s1 ih show ?thesis by simp
  next
    case (moved m g')
    have "capturedBy c (m # committed E s1 rest)
        = capturedBy c [m] @ capturedBy c (committed E s1 rest)"
      by (simp add: capturedBy_def)
    with s1 ih moved show ?thesis by (simp add: bucket_pushCaptured)
  qed
qed

lemma committed_opening:
  "committed bookEngine (freshState bookEngine) openingCapture
     = [mv White ''e2'' ''e4'' ''e4'' None, mv Black ''d7'' ''d5'' ''d5'' None,
        mv White ''e4'' ''d5'' ''exd5'' (Some Pawn)]"
  by (simp add: openingCapture_def handleMove_def freshState_def book_defs)

lemma accepts_returns: "accepts E g ns \<Longrightarrow> \<exists>g'. replay E g ns = Inr g'"
  by (induction ns arbitrary: g) (auto split: MoveResult.splits)




lemma play_before_mate:
  "playMoves bookEngine (freshState bookEngine) [(''f2'', ''f3''), (''e7'', ''e5''), (''g2'', ''g4'')]
     = Inr (toggleTimer beforeMate)"
  by (simp add: beforeMate_def toggleTimer_def handleMove_def freshState_def book_defs
      pushCaptured_def)






lemma clockNonNeg_handleMove:
  "clockNonNeg (timeControl s) \<Longrightarrow> handleMove E s a b = Inr s'
   \<Longrightarrow> clockNonNeg (timeControl s')"
  by (auto simp: handleMove_def clockNonNeg_def Let_def split: MoveResult.splits if_splits)

lemma clockNonNeg_handleSquareClick:
  "clockNonNeg (timeControl s) \<Longrightarrow> handleSquareClick E s a = Inr s'
   \<Longrightarrow> clockNonNeg (timeControl s')"
  by (auto simp: handleSquareClick_def selectPiece_def
      split: option.splits if_splits dest: clockNonNeg_handleMove)

lemma clockNonNeg_undoMove:
  "clockNonNeg (timeControl s) \<Longrightarrow> undoMove E s = Inr s' \<Longrightarrow> clockNonNeg (timeControl s')"
  by (auto simp: undoMove_def Let_def split: if_splits sum.splits)

lemma clockNonNeg_tick:
  "clockNonNeg (timeControl s) \<Longrightarrow> clockNonNeg (timeControl (fst (tick E s)))"
  by (auto simp: tick_def clockNonNeg_def Let_def)

lemma clockNonNeg_handler:
  assumes "clockNonNeg (timeControl (gameState c))"
    and "clockNonNeg (initialTimeControlObject c)"
    and "fromDialog i"
  shows "clockNonNeg (timeControl (gameState (handler E i c)))
       \<and> clockNonNeg (initialTimeControlObject (handler E i c))"
proof (cases i)
  case (HandleMove a b)
  with assms show ?thesis
    by (auto simp: onUpdater_def split: sum.splits dest: clockNonNeg_handleMove)
next
  case (SquareClick a)
  with assms show ?thesis
    by (auto simp: onUpdater_def split: sum.splits dest: clockNonNeg_handleSquareClick)
next
  case ResetGame
  with assms show ?thesis by (simp add: resetGame_def)
next
  case UndoMove
  with assms show ?thesis by (auto split: sum.splits dest: clockNonNeg_undoMove)
next
  case FlipBoard
  with assms show ?thesis by (simp add: onState_def flipBoard_def)
next
  case ToggleSound
  with assms show ?thesis by (simp add: onState_def toggleSound_def)
next
  case ToggleTimer
  with assms show ?thesis by (simp add: onState_def toggleTimer_def)
next
  case (UpdateTimeControl t)
  with assms show ?thesis by (simp add: onState_def updateTimeControl_def fromDialog_def)
next
  case ReapplyTimeControl
  with assms show ?thesis by (simp add: onState_def updateTimeControl_def)
next
  case (UpdateBoardTheme th)
  with assms show ?thesis by (simp add: onState_def updateBoardTheme_def)
next
  case Tick
  with assms show ?thesis by (simp add: onState_def clockNonNeg_tick)
qed

lemma clockNonNeg_run:
  "clockNonNeg (timeControl (gameState c)) \<Longrightarrow> clockNonNeg (initialTimeControlObject c)
   \<Longrightarrow> list_all (\<lambda>ti. fromDialog (snd ti)) tis
   \<Longrightarrow> clockNonNeg (timeControl (gameState (run E tis c)))"
proof (induction tis arbitrary: c)
  case Nil
  then show ?case by simp
next
  case (Cons ti tis)
  from Cons.prems have "clockNonNeg (timeControl (gameState (step E ti c)))
      \<and> clockNonNeg (initialTimeControlObject (step E ti c))"
    using clockNonNeg_handler [of c "snd ti" E] by (simp add: step_def dispatch_def)
  with Cons show ?case by simp
qed

lemma tick_side_to_move:
  "remaining (turn E (game s)) (timeControl (fst (tick E s)))
     = max 0 (remaining (turn E (game s)) (timeControl s) - 1)
   \<and> remaining (opponent (turn E (game s))) (timeControl (fst (tick E s)))
     = remaining (opponent (turn E (game s))) (timeControl s)
   \<and> increment (timeControl (fst (tick E s))) = increment (timeControl s)"
  by (cases "turn E (game s)") (auto simp: tick_def remaining_def opponent_def Let_def)

lemma tick_expiry:
  "(remaining (turn E (game s)) (timeControl (fst (tick E s))) = 0
      \<longrightarrow> \<not> isTimerRunning (fst (tick E s)) \<and> snd (tick E s) = [TimeExpired (turn E (game s))])
   \<and> (remaining (turn E (game s)) (timeControl (fst (tick E s))) \<noteq> 0
      \<longrightarrow> isTimerRunning (fst (tick E s)) = isTimerRunning s \<and> snd (tick E s) = [])"
  by (cases "turn E (game s)") (auto simp: tick_def remaining_def Let_def)

lemma run_append: "run E (xs @ ys) c = run E ys (run E xs c)"
  by (induction xs arbitrary: c) simp_all

lemma runEvents_append:
  "runEvents E (xs @ ys) c = runEvents E xs c @ runEvents E ys (run E xs c)"
  by (induction xs arbitrary: c) simp_all

lemma step_Tick:
  "\<not> unmounted c \<Longrightarrow>
   gameState (step E (t, Tick) c)
     = (if timerActive E (gameState c) then fst (tick E (gameState c)) else gameState c)
   \<and> \<not> unmounted (step E (t, Tick) c)"
  by (simp add: step_def dispatch_def onState_def)

lemma ticks_to_zero:
  assumes "\<not> unmounted c"
    and "turn E (game (gameState c)) = White"
    and "\<not> isGameOver E (game (gameState c))"
    and "isTimerRunning (gameState c)"
    and "tc_white (timeControl (gameState c)) = int (Suc n)"
  shows "gameState (run E (replicate (Suc n) (False, Tick)) c)
           = (gameState c)\<lparr>timeControl := (timeControl (gameState c))\<lparr>tc_white := 0\<rparr>,
                            isTimerRunning := False\<rparr>
       \<and> \<not> unmounted (run E (replicate (Suc n) (False, Tick)) c)
       \<and> runEvents E (replicate (Suc n) (False, Tick)) c = [TimeExpired White]"
  using assms
proof (induction n arbitrary: c)
  case 0
  then show ?case
    using step_Tick [of c E False]
    by (simp add: events_def timerActive_def tick_def Let_def)
next
  case (Suc n)
  let ?c = "step E (False, Tick) c"
  have act: "timerActive E (gameState c)"
    using Suc.prems by (simp add: timerActive_def)
  have s1: "gameState ?c
      = (gameState c)\<lparr>timeControl := (timeControl (gameState c))\<lparr>tc_white := int (Suc n)\<rparr>\<rparr>"
    and um: "\<not> unmounted ?c"
    using Suc.prems act step_Tick [of c E False] by (simp_all add: tick_def Let_def)
  have e1: "events E Tick c = []"
    using Suc.prems act by (simp add: events_def tick_def Let_def)
  have ih: "gameState (run E (replicate (Suc n) (False, Tick)) ?c)
           = (gameState ?c)\<lparr>timeControl := (timeControl (gameState ?c))\<lparr>tc_white := 0\<rparr>,
                            isTimerRunning := False\<rparr>
       \<and> \<not> unmounted (run E (replicate (Suc n) (False, Tick)) ?c)
       \<and> runEvents E (replicate (Suc n) (False, Tick)) ?c = [TimeExpired White]"
    using Suc.prems um by (intro Suc.IH) (simp_all add: s1)
  have r: "run E (replicate (Suc (Suc n)) (False, Tick)) c
      = run E (replicate (Suc n) (False, Tick)) ?c"
    by simp
  have re: "runEvents E (replicate (Suc (Suc n)) (False, Tick)) c
      = events E Tick c @ runEvents E (replicate (Suc n) (False, Tick)) ?c"
    by simp
  show ?case
    unfolding r re using ih e1 by (simp add: s1)
qed

lemma book_start_white:
  "turn bookEngine (startFen, h) = White \<and> \<not> isGameOver bookEngine (startFen, h)"
  by (simp add: book_defs fenTurn_def)

lemma flagFall_run:
  "gameState (run bookEngine flagFall (mount (freshState bookEngine)))
     = (freshState bookEngine)
         \<lparr>timeControl := \<lparr>tc_white = 0, tc_black = 600, increment = 0\<rparr>,
          isTimerRunning := False\<rparr>
   \<and> \<not> unmounted (run bookEngine flagFall (mount (freshState bookEngine)))
   \<and> runEvents bookEngine flagFall (mount (freshState bookEngine)) = [TimeExpired White]"
proof -
  let ?c = "step bookEngine (False, ToggleTimer) (mount (freshState bookEngine))"
  have g: "gameState ?c = (freshState bookEngine)\<lparr>isTimerRunning := True\<rparr>"
    and um: "\<not> unmounted ?c"
    by (simp_all add: step_def dispatch_def onState_def toggleTimer_def mount_def freshState_def)
  have gm: "game (gameState ?c) = (startFen, [])"
    by (simp add: g) (simp add: freshState_def bookEngine_def)
  have t: "gameState (run bookEngine (replicate (Suc 599) (False, Tick)) ?c)
           = (gameState ?c)\<lparr>timeControl := (timeControl (gameState ?c))\<lparr>tc_white := 0\<rparr>,
                            isTimerRunning := False\<rparr>
       \<and> \<not> unmounted (run bookEngine (replicate (Suc 599) (False, Tick)) ?c)
       \<and> runEvents bookEngine (replicate (Suc 599) (False, Tick)) ?c = [TimeExpired White]"
  proof (rule ticks_to_zero)
    show "\<not> unmounted ?c" by (rule um)
    show "turn bookEngine (game (gameState ?c)) = White"
      using book_start_white by (simp add: gm)
    show "\<not> isGameOver bookEngine (game (gameState ?c))"
      using book_start_white by (simp add: gm)
    show "isTimerRunning (gameState ?c)" by (simp add: g)
    show "tc_white (timeControl (gameState ?c)) = int (Suc 599)"
      by (simp add: g) (simp add: freshState_def initialTimeControl_def)
  qed
  have n: "replicate 600 (False, Tick) = replicate (Suc 599) (False, Tick)"
  proof -
    have k: "(600::nat) = Suc 599" by simp
    show ?thesis by (subst k) (rule refl)
  qed
  have e0: "events bookEngine ToggleTimer (mount (freshState bookEngine)) = []"
    by (simp add: events_def)
  show ?thesis
    unfolding flagFall_def n using t e0
    by (simp add: g del: replicate.simps) (simp add: freshState_def initialTimeControl_def)
qed

lemma blitzTick_run:
  "gameState (run bookEngine blitzTick (mount (freshState bookEngine)))
     = (freshState bookEngine)
         \<lparr>timeControl := \<lparr>tc_white = 179, tc_black = 180, increment = 2\<rparr>,
          isTimerRunning := True\<rparr>"
  using book_start_white [of "[]"]
  by (simp add: blitzTick_def step_def dispatch_def onState_def updateTimeControl_def
      toggleTimer_def mount_def render_def timerActive_def tick_def Let_def blitz_def
      freshState_def bookEngine_def)

text \<open>
  After the mate 1. f3 e5 2. g4 Qh4 the engine has no move to accept: a further
  \<open>handleMove\<close>, here the king's move from e1 to f2, throws and unmounts the component.
\<close>

lemma move_after_mate_throws:
  "\<exists>s'. handleMove bookEngine beforeMate ''d8'' ''h4'' = Inr s'
        \<and> isGameOver bookEngine (game s')
        \<and> handleMove bookEngine s' ''e1'' ''f2'' = Inl InvalidMove
        \<and> unmounted (dispatch bookEngine (HandleMove ''e1'' ''f2'') (mount s'))"
  by (simp add: handleMove_def beforeMate_def freshState_def dispatch_def onUpdater_def
      mount_def book_defs pushCaptured_def)

subsection \<open>Resetting the game\<close>

text \<open>
  Claim C1, as the code has it. The component starts on a time control object of its own (it
  was not started from a stored record without a time control, which makes the session share
  the object \<open>initialTimeControl\<close> of the module) and has handled any intents since. Then
  \<open>resetGame\<close> on the rendered component gives a new game: the engine's starting position,
  no move history, no captured pieces, no last move, no selection. The board orientation and
  the sound switch keep the values of the session; the clock is set to a copy of
  \<open>initialTimeControl\<close>, ten minutes a side without increment, whatever time control the
  session had, and is stopped.
\<close>

theorem reset_gives_new_game:
  assumes "ownTimeControl c0" and "c = run E tis c0"
  shows "game (gameState (resetGame E (render t c))) = newChess E
   \<and> gameHistory (gameState (resetGame E (render t c))) = []
   \<and> capturedPieces (gameState (resetGame E (render t c))) = \<lparr>cp_white = [], cp_black = []\<rparr>
   \<and> lastMove (gameState (resetGame E (render t c))) = None
   \<and> selectedSquare (gameState (resetGame E (render t c))) = None
   \<and> legalMoves (gameState (resetGame E (render t c))) = []
   \<and> isFlipped (gameState (resetGame E (render t c))) = isFlipped (gameState c)
   \<and> soundEnabled (gameState (resetGame E (render t c))) = soundEnabled (gameState c)
   \<and> timeControl (gameState (resetGame E (render t c))) = initialTimeControl
   \<and> tc_white initialTimeControl = 600 \<and> tc_black initialTimeControl = 600
   \<and> increment initialTimeControl = 0
   \<and> \<not> isTimerRunning (gameState (resetGame E (render t c)))"
proof -
  from assms have "ownTimeControl c" by (simp add: ownTimeControl_run)
  then have "initialTimeControlObject (render t c) = initialTimeControl"
    by (simp add: ownTimeControl_def)
  then show ?thesis
    using render_in_step [of t c] by (simp add: resetGame_def initialTimeControl_def)
qed

text \<open>
  The claim as written fails on the blitz session with the wooden board: after the reset the
  clock shows ten minutes, not the three minutes plus two seconds that were configured, and
  the board theme is the one \<open>resetGame\<close> saw when it was last created (its dependency list
  does not name the theme), not the theme of the session.
\<close>

theorem reset_counterexample:
  "boardTheme (gameState woodenBlitz) = ''wooden''
   \<and> timeControl (gameState woodenBlitz) = blitz
   \<and> boardTheme (gameState (step bookEngine (False, ResetGame) woodenBlitz)) = ''classic''
   \<and> timeControl (gameState (step bookEngine (False, ResetGame) woodenBlitz))
       = \<lparr>tc_white = 600, tc_black = 600, increment = 0\<rparr>"
  by (simp add: woodenBlitz_def step_def dispatch_def onState_def updateTimeControl_def
      updateBoardTheme_def mount_def freshState_def render_def resetGame_def
      initialTimeControl_def blitz_def)

theorem reset_gives_new_game_witness:
  "ownTimeControl (mount (freshState bookEngine))
   \<and> isFlipped (gameState flippedMuted) \<and> \<not> soundEnabled (gameState flippedMuted)
   \<and> gameHistory (gameState flippedMuted) = [''e4'']
   \<and> isTimerRunning (gameState flippedMuted)
   \<and> isFlipped (gameState (resetGame bookEngine (render False flippedMuted)))
   \<and> \<not> soundEnabled (gameState (resetGame bookEngine (render False flippedMuted)))
   \<and> gameHistory (gameState (resetGame bookEngine (render False flippedMuted))) = []
   \<and> game (gameState (resetGame bookEngine (render False flippedMuted))) = (startFen, [])
   \<and> timeControl (gameState (resetGame bookEngine (render False flippedMuted)))
       = \<lparr>tc_white = 600, tc_black = 600, increment = 0\<rparr>
   \<and> \<not> isTimerRunning (gameState (resetGame bookEngine (render False flippedMuted)))"
  using reset_gives_new_game [OF ownTimeControl_mount flippedMuted_def, of False]
    flippedMuted_state ownTimeControl_mount [of "freshState bookEngine"]
  by (simp add: initialTimeControl_def bookEngine_def)

subsection \<open>Rejected moves\<close>

text \<open>
  Claim C2 against the code. The rules engine throws on a move it rejects, and \<open>handleMove\<close>
  calls it inside the state updater without catching anything: the test for a result that is
  not a move, which returns the session unchanged, is never reached. In a new session the
  move from e7, a piece of the side not to move, throws, and so does the move from e2 to e5,
  a square that is not a destination of e2; the exception leaves the updater and the
  component is unmounted, where the claim has the session continue unchanged.
\<close>

theorem illegal_move_unmounts:
  "get bookEngine (game (freshState bookEngine)) ''e7'' = Some Black
   \<and> turn bookEngine (game (freshState bookEngine)) = White
   \<and> handleMove bookEngine (freshState bookEngine) ''e7'' ''e5'' = Inl InvalidMove
   \<and> unmounted (dispatch bookEngine (HandleMove ''e7'' ''e5'') (mount (freshState bookEngine)))
   \<and> get bookEngine (game (freshState bookEngine)) ''e2'' = Some White
   \<and> ''e5'' \<notin> set (map dst (moves bookEngine (game (freshState bookEngine)) ''e2''))
   \<and> handleMove bookEngine (freshState bookEngine) ''e2'' ''e5'' = Inl InvalidMove
   \<and> unmounted (dispatch bookEngine (HandleMove ''e2'' ''e5'') (mount (freshState bookEngine)))"
  by (simp add: handleMove_def dispatch_def onUpdater_def mount_def freshState_def book_defs
      fenPieceAt_def fenTurn_def expandRank_def pieceColor_def)

subsection \<open>Undo\<close>




subsection \<open>The clock\<close>

text \<open>
  Claim C4, as the code has it. Along every run of intents from a component whose clocks (the
  time control of the session and the object \<open>initialTimeControl\<close> of the module) are not
  negative, the remaining time of each side is never negative. A tick takes exactly one second
  from the side to move, floored at 0, and leaves the other side's time; when the side to
  move is at 0 after the tick, the tick stops the timer and raises \<open>TimeExpired\<close> for that
  side once, and otherwise it raises nothing and leaves the running flag. (Nothing prevents
  the timer from being started again at 0; the next tick then raises the event again.)
\<close>

theorem clock_never_negative:
  assumes "clockNonNeg (timeControl (gameState c0))"
    and "clockNonNeg (initialTimeControlObject c0)"
    and "list_all (\<lambda>ti. fromDialog (snd ti)) tis"
  shows "0 \<le> tc_white (timeControl (gameState (run E tis c0)))
       \<and> 0 \<le> tc_black (timeControl (gameState (run E tis c0)))
       \<and> remaining (turn E (game s)) (timeControl (fst (tick E s)))
           = max 0 (remaining (turn E (game s)) (timeControl s) - 1)
       \<and> remaining (opponent (turn E (game s))) (timeControl (fst (tick E s)))
           = remaining (opponent (turn E (game s))) (timeControl s)
       \<and> (remaining (turn E (game s)) (timeControl (fst (tick E s))) = 0
            \<longrightarrow> \<not> isTimerRunning (fst (tick E s))
                \<and> snd (tick E s) = [TimeExpired (turn E (game s))])
       \<and> (remaining (turn E (game s)) (timeControl (fst (tick E s))) \<noteq> 0
            \<longrightarrow> isTimerRunning (fst (tick E s)) = isTimerRunning s \<and> snd (tick E s) = [])"
  using clockNonNeg_run [OF assms, of E] tick_side_to_move [of E s] tick_expiry [of E s]
  by (simp add: clockNonNeg_def)

text \<open>
  The claim as written fails on the event being raised exactly once: White's time runs out
  and \<open>TimeExpired\<close> is raised; the timer is started again with White at 0, and the next
  tick raises \<open>TimeExpired\<close> for White a second time.
\<close>

theorem time_expired_counterexample:
  "tc_white (timeControl (gameState (run bookEngine flagFall (mount (freshState bookEngine))))) = 0
   \<and> \<not> isTimerRunning (gameState (run bookEngine flagFall (mount (freshState bookEngine))))
   \<and> runEvents bookEngine flagFall (mount (freshState bookEngine)) = [TimeExpired White]
   \<and> runEvents bookEngine restartAtZero (mount (freshState bookEngine))
       = [TimeExpired White, TimeExpired White]
   \<and> countExpired White (runEvents bookEngine restartAtZero (mount (freshState bookEngine))) = 2"
proof -
  let ?c = "run bookEngine flagFall (mount (freshState bookEngine))"
  have g: "gameState ?c = (freshState bookEngine)
         \<lparr>timeControl := \<lparr>tc_white = 0, tc_black = 600, increment = 0\<rparr>,
          isTimerRunning := False\<rparr>"
    and um: "\<not> unmounted ?c"
    using flagFall_run by blast+
  have ev: "runEvents bookEngine flagFall (mount (freshState bookEngine)) = [TimeExpired White]"
    using flagFall_run by blast
  have g2: "gameState (step bookEngine (False, ToggleTimer) ?c) = (freshState bookEngine)
         \<lparr>timeControl := \<lparr>tc_white = 0, tc_black = 600, increment = 0\<rparr>,
          isTimerRunning := True\<rparr>"
    and um2: "\<not> unmounted (step bookEngine (False, ToggleTimer) ?c)"
    using um by (simp_all add: step_def dispatch_def onState_def toggleTimer_def g)
  have gm: "game (gameState (step bookEngine (False, ToggleTimer) ?c)) = (startFen, [])"
    by (simp add: g2) (simp add: freshState_def bookEngine_def)
  have tail: "runEvents bookEngine [(False, ToggleTimer), (False, Tick)] ?c = [TimeExpired White]"
    using book_start_white [of "[]"] um2
    by (simp add: events_def timerActive_def tick_def Let_def gm) (simp add: g2)
  have all: "runEvents bookEngine restartAtZero (mount (freshState bookEngine))
       = [TimeExpired White, TimeExpired White]"
    unfolding restartAtZero_def runEvents_append using ev tail by simp
  show ?thesis
    using all ev by (simp add: g countExpired_def)
qed

theorem clock_never_negative_witness:
  "clockNonNeg (timeControl (gameState (mount (freshState bookEngine))))
   \<and> clockNonNeg (initialTimeControlObject (mount (freshState bookEngine)))
   \<and> list_all (\<lambda>ti. fromDialog (snd ti)) blitzTick
   \<and> tc_white (timeControl (gameState (run bookEngine blitzTick (mount (freshState bookEngine))))) = 179
   \<and> turn bookEngine (game (clockAt 1 0 True)) = White
   \<and> remaining White (timeControl (clockAt 1 0 True)) = 1
   \<and> remaining White (timeControl (fst (tick bookEngine (clockAt 1 0 True)))) = 0
   \<and> remaining Black (timeControl (fst (tick bookEngine (clockAt 1 0 True)))) = 600
   \<and> \<not> isTimerRunning (fst (tick bookEngine (clockAt 1 0 True)))
   \<and> snd (tick bookEngine (clockAt 1 0 True)) = [TimeExpired White]"
proof -
  have a: "clockNonNeg (timeControl (gameState (mount (freshState bookEngine))))"
    by (simp add: mount_def freshState_def clockNonNeg_def initialTimeControl_def)
  have a': "clockNonNeg (initialTimeControlObject (mount (freshState bookEngine)))"
    by (simp add: mount_def clockNonNeg_def initialTimeControl_def)
  have b: "list_all (\<lambda>ti. fromDialog (snd ti)) blitzTick"
    by (simp add: blitzTick_def fromDialog_def clockNonNeg_def blitz_def)
  have w: "turn bookEngine (game (clockAt 1 0 True)) = White"
    using book_start_white [of "[]"] by (simp add: clockAt_def freshState_def bookEngine_def)
  have r: "remaining White (timeControl (clockAt 1 0 True)) = 1"
    "remaining Black (timeControl (clockAt 1 0 True)) = 600"
    by (simp_all add: clockAt_def remaining_def)
  show ?thesis
    using clock_never_negative [OF a a' b, of bookEngine "clockAt 1 0 True"] a a' b w r
    by (simp add: blitzTick_run opponent_def)
qed

subsection \<open>The increment\<close>

text \<open>
  Claim C5. When the engine accepts a move, \<open>handleMove\<close> returns a session in which the
  remaining time of the mover has grown by the increment if the timer was running before the
  move and is as it was if the timer was stopped; the other side's time and the increment
  do not change. With the timer running and an increment of 5, a mover at 598 seconds has 603
  seconds after the move.
\<close>

theorem increment_iff_running:
  assumes "moveObj E (loadFen E (fen E (game s))) a b = Moved m g'"
  shows "\<exists>s'. handleMove E s a b = Inr s'
         \<and> remaining (color m) (timeControl s')
           = remaining (color m) (timeControl s)
             + (if isTimerRunning s then increment (timeControl s) else 0)
         \<and> remaining (opponent (color m)) (timeControl s')
           = remaining (opponent (color m)) (timeControl s)
         \<and> increment (timeControl s') = increment (timeControl s)"
  using assms by (simp add: handleMove_def remaining_def opponent_def Let_def)

theorem increment_iff_running_witness:
  "isTimerRunning (clockAt 598 5 True)
   \<and> tc_white (timeControl (clockAt 598 5 True)) = 598
   \<and> handleMove bookEngine (clockAt 598 5 True) ''e2'' ''e4'' = Inr timedAfterE4
   \<and> tc_white (timeControl timedAfterE4) = 603
   \<and> \<not> isTimerRunning (clockAt 598 5 False)
   \<and> (\<exists>s'. handleMove bookEngine (clockAt 598 5 False) ''e2'' ''e4'' = Inr s'
            \<and> tc_white (timeControl s') = 598)"
proof -
  from increment_iff_running [OF book_e2e4 [of 598 5 True]] obtain s1 where
    s1: "handleMove bookEngine (clockAt 598 5 True) ''e2'' ''e4'' = Inr s1"
    and r1: "remaining (color (mv White ''e2'' ''e4'' ''e4'' None)) (timeControl s1)
           = remaining (color (mv White ''e2'' ''e4'' ''e4'' None)) (timeControl (clockAt 598 5 True))
             + (if isTimerRunning (clockAt 598 5 True)
                then increment (timeControl (clockAt 598 5 True)) else 0)"
    by blast
  from s1 timed_e4 have e1: "s1 = timedAfterE4" by simp
  from r1 have a: "tc_white (timeControl timedAfterE4) = 603"
    unfolding e1 by (simp add: remaining_def mv_def clockAt_def)
  from increment_iff_running [OF book_e2e4 [of 598 5 False]] obtain s2 where
    s2: "handleMove bookEngine (clockAt 598 5 False) ''e2'' ''e4'' = Inr s2"
    and r2: "remaining (color (mv White ''e2'' ''e4'' ''e4'' None)) (timeControl s2)
           = remaining (color (mv White ''e2'' ''e4'' ''e4'' None)) (timeControl (clockAt 598 5 False))
             + (if isTimerRunning (clockAt 598 5 False)
                then increment (timeControl (clockAt 598 5 False)) else 0)"
    by blast
  from r2 have b: "tc_white (timeControl s2) = 598"
    by (simp add: remaining_def mv_def clockAt_def)
  have c: "isTimerRunning (clockAt 598 5 True)
     \<and> tc_white (timeControl (clockAt 598 5 True)) = 598
     \<and> \<not> isTimerRunning (clockAt 598 5 False)"
    by (simp add: clockAt_def)
  from a b c s2 timed_e4 show ?thesis by blast
qed

subsection \<open>The end of the game\<close>




subsection \<open>Captured pieces, on a move and on undo\<close>

text \<open>
  Claim C7, as the code has it. For every sequence of moves played from a new session, each
  of them committed or skipped without the engine throwing, the bucket of each side holds, in
  order and so also as a multiset, the pieces taken by the committed moves of that same side
  (the capturing side, not its opponent). With an engine that keeps the history of a game and
  accepts by notation what it accepted by squares, the full replay of the move history that
  \<open>undoMove\<close> performs goes through, and the captured pieces recomputed from it are the
  captured pieces the session has accumulated move by move.
\<close>

theorem captured_incremental_equals_replay:
  assumes "keepsHistory E" and "replaysNotation E"
    and "playMoves E (freshState E) ms = Inr s"
  shows "bucket c (capturedPieces s) = capturedBy c (committed E (freshState E) ms)
       \<and> mset (bucket c (capturedPieces s)) = mset (capturedBy c (committed E (freshState E) ms))
       \<and> (\<exists>g. replay E (newChess E) (gameHistory s) = Inr g
              \<and> recalculateCaptured (history E g) = capturedPieces s)"
proof -
  have "bucket c (capturedPieces (freshState E)) = []"
    by (simp add: freshState_def bucket_def)
  then have b: "bucket c (capturedPieces s) = capturedBy c (committed E (freshState E) ms)"
    using bucket_playMoves [OF assms(3), of c] by simp
  have "replayAgrees E s"
    using assms replayAgrees_fresh replayAgrees_playMoves by blast
  then have "\<exists>g. replay E (newChess E) (gameHistory s) = Inr g
              \<and> recalculateCaptured (history E g) = capturedPieces s"
    by (auto simp: replayAgrees_def split: sum.splits)
  with b show ?thesis by simp
qed

text \<open>
  The claim as written fails after 1. e4 d5 2. exd5: White's bucket holds the black pawn, and
  the moves of the opposing side, Black, have taken nothing.
\<close>

theorem captured_counterexample:
  "playMoves bookEngine (freshState bookEngine) openingCapture = Inr afterOpening
   \<and> bucket White (capturedPieces afterOpening) = [''bP'']
   \<and> capturedBy (opponent White) (committed bookEngine (freshState bookEngine) openingCapture) = []
   \<and> mset (bucket White (capturedPieces afterOpening))
      \<noteq> mset (capturedBy (opponent White)
                 (committed bookEngine (freshState bookEngine) openingCapture))"
  using play_opening
  by (simp add: committed_opening bucket_def opponent_def capturedBy_def mv_def afterOpening_def)

theorem captured_incremental_equals_replay_witness:
  "keepsHistory bookEngine \<and> replaysNotation bookEngine
   \<and> playMoves bookEngine (freshState bookEngine) openingCapture = Inr afterOpening
   \<and> capturedPieces afterOpening = \<lparr>cp_white = [''bP''], cp_black = []\<rparr>
   \<and> capturedBy White (committed bookEngine (freshState bookEngine) openingCapture) = [''bP'']
   \<and> capturedBy Black (committed bookEngine (freshState bookEngine) openingCapture) = []
   \<and> (\<exists>g. replay bookEngine (newChess bookEngine) (gameHistory afterOpening) = Inr g
          \<and> recalculateCaptured (history bookEngine g)
              = \<lparr>cp_white = [''bP''], cp_black = []\<rparr>)"
proof -
  note t = captured_incremental_equals_replay [OF book_keepsHistory book_replaysNotation
      play_opening, of White]
  have c: "capturedBy White (committed bookEngine (freshState bookEngine) openingCapture) = [''bP'']"
    by (simp add: committed_opening capturedBy_def mv_def toUpperCase_def)
  have d: "capturedBy Black (committed bookEngine (freshState bookEngine) openingCapture) = []"
    by (simp add: committed_opening capturedBy_def mv_def)
  have f: "capturedPieces afterOpening = \<lparr>cp_white = [''bP''], cp_black = []\<rparr>"
    by (simp add: afterOpening_def)
  from t have "\<exists>g. replay bookEngine (newChess bookEngine) (gameHistory afterOpening) = Inr g
          \<and> recalculateCaptured (history bookEngine g) = capturedPieces afterOpening"
    by blast
  with f have e: "\<exists>g. replay bookEngine (newChess bookEngine) (gameHistory afterOpening) = Inr g
          \<and> recalculateCaptured (history bookEngine g)
              = \<lparr>cp_white = [''bP''], cp_black = []\<rparr>"
    by simp
  from book_keepsHistory book_replaysNotation play_opening c d e f show ?thesis by blast
qed

subsection \<open>Undo and the clock\<close>

text \<open>
  Claim C8. \<open>undoMove\<close> leaves the clock as it is: in the session it returns, the time
  control (both remaining times and the increment) and the running flag are those of the
  session it was given, and it returns a session whenever the move history is empty or the
  engine accepts the remaining entries. In the component the undo intent leaves the time
  control and the running flag of the state, and the time control object of the module,
  unchanged in every case.
\<close>

theorem undo_keeps_clock:
  "(\<forall>s'. undoMove E s = Inr s'
       \<longrightarrow> timeControl s' = timeControl s \<and> isTimerRunning s' = isTimerRunning s)
   \<and> (gameHistory s = [] \<or> accepts E (newChess E) (butlast (gameHistory s))
       \<longrightarrow> (\<exists>s'. undoMove E s = Inr s'))
   \<and> timeControl (gameState (dispatch E UndoMove c)) = timeControl (gameState c)
   \<and> isTimerRunning (gameState (dispatch E UndoMove c)) = isTimerRunning (gameState c)
   \<and> initialTimeControlObject (dispatch E UndoMove c) = initialTimeControlObject c
   \<and> timeControlIsInitial (dispatch E UndoMove c) = timeControlIsInitial c"
proof -
  have a: "\<forall>s'. undoMove E s = Inr s'
       \<longrightarrow> timeControl s' = timeControl s \<and> isTimerRunning s' = isTimerRunning s" for s
    by (auto simp: undoMove_def Let_def split: if_splits sum.splits)
  have b: "gameHistory s = [] \<or> accepts E (newChess E) (butlast (gameHistory s))
       \<longrightarrow> (\<exists>s'. undoMove E s = Inr s')"
    using accepts_returns [of E "newChess E" "butlast (gameHistory s)"]
    by (auto simp: undoMove_def Let_def)
  have c: "timeControl (gameState (dispatch E UndoMove c)) = timeControl (gameState c)
   \<and> isTimerRunning (gameState (dispatch E UndoMove c)) = isTimerRunning (gameState c)
   \<and> initialTimeControlObject (dispatch E UndoMove c) = initialTimeControlObject c
   \<and> timeControlIsInitial (dispatch E UndoMove c) = timeControlIsInitial c"
    using a [of "gameState c"] by (auto simp: dispatch_def split: sum.splits)
  from a b c show ?thesis by blast
qed

theorem undo_keeps_clock_witness:
  "timeControl timedAfterE4 = \<lparr>tc_white = 603, tc_black = 600, increment = 5\<rparr>
   \<and> isTimerRunning timedAfterE4
   \<and> undoMove bookEngine timedAfterE4 = Inr (clockAt 603 5 True)
   \<and> timeControl (clockAt 603 5 True) = \<lparr>tc_white = 603, tc_black = 600, increment = 5\<rparr>
   \<and> isTimerRunning (clockAt 603 5 True)
   \<and> timeControl (gameState (dispatch bookEngine UndoMove (mount timedAfterE4)))
       = \<lparr>tc_white = 603, tc_black = 600, increment = 5\<rparr>"
  using undo_keeps_clock [of bookEngine timedAfterE4 "mount timedAfterE4"] undo_timed
  by (simp add: timedAfterE4_def clockAt_def mount_def)

subsection \<open>Starting without a readable record\<close>

text \<open>
  Claim C9. When the stored record is missing or empty, or \<open>JSON.parse\<close> throws on it, or
  it parses to \<open>null\<close>, or the engine throws on its game text, the initialiser returns the
  new session: the engine's starting position, no moves, no captured pieces, ten minutes a
  side with the timer stopped, board not flipped, sound on, classic theme. The initialiser
  returns a value in each of these cases: the exception is caught.
\<close>

theorem unreadable_record_gives_new_session:
  assumes "savedGame = None \<or> savedGame = Some []
           \<or> (\<exists>txt. savedGame = Some txt
                \<and> (parse txt = None
                    \<or> parse txt = Some JNull
                    \<or> (\<exists>p. parse txt = Some p \<and> loadPgn E (getProp p ''pgn'') = None)))"
  shows "initialGameState E parse savedGame = Session (freshState E)
       \<and> game (freshState E) = newChess E
       \<and> gameHistory (freshState E) = []
       \<and> capturedPieces (freshState E) = \<lparr>cp_white = [], cp_black = []\<rparr>
       \<and> lastMove (freshState E) = None
       \<and> timeControl (freshState E) = \<lparr>tc_white = 600, tc_black = 600, increment = 0\<rparr>
       \<and> \<not> isTimerRunning (freshState E)
       \<and> \<not> isFlipped (freshState E) \<and> soundEnabled (freshState E)
       \<and> boardTheme (freshState E) = ''classic''"
proof -
  have "initialGameState E parse savedGame = Session (freshState E)"
    using assms
    by (auto simp: initialGameState_def restoreState_def split: option.splits)
  then show ?thesis by (simp add: freshState_def initialTimeControl_def)
qed

theorem unreadable_record_gives_new_session_witness:
  "initialGameState bookEngine literalParse None = Session (freshState bookEngine)
   \<and> literalParse ''{pgn'' = None
   \<and> initialGameState bookEngine literalParse (Some ''{pgn'') = Session (freshState bookEngine)
   \<and> literalParse ''null'' = Some JNull
   \<and> initialGameState bookEngine literalParse (Some ''null'') = Session (freshState bookEngine)
   \<and> literalParse ''true'' = Some (JBool True)
   \<and> loadPgn bookEngine (getProp (JBool True) ''pgn'') = None
   \<and> initialGameState bookEngine literalParse (Some ''true'') = Session (freshState bookEngine)"
proof -
  have a: "literalParse ''{pgn'' = None" by (simp add: literalParse_def)
  have b: "literalParse ''null'' = Some JNull" by (simp add: literalParse_def)
  have c: "literalParse ''true'' = Some (JBool True)" by (simp add: literalParse_def)
  have d: "loadPgn bookEngine (getProp (JBool True) ''pgn'') = None"
    by (simp add: bookEngine_def getProp_def)
  show ?thesis
    using a b c d
      unreadable_record_gives_new_session [of None literalParse bookEngine]
      unreadable_record_gives_new_session [of "Some ''{pgn''" literalParse bookEngine]
      unreadable_record_gives_new_session [of "Some ''null''" literalParse bookEngine]
      unreadable_record_gives_new_session [of "Some ''true''" literalParse bookEngine]
    by simp
qed

subsection \<open>The settings\<close>

text \<open>
  Claim C10. \<open>flipBoard\<close>, \<open>toggleSound\<close> and \<open>updateBoardTheme\<close> leave the game, the move
  history, the captured pieces, the last move, the time control and the running flag
  unchanged; each changes its own field and nothing else.
\<close>

theorem settings_change_own_field_only:
  "sessionCore (flipBoard s) = sessionCore s
   \<and> sessionCore (toggleSound s) = sessionCore s
   \<and> sessionCore (updateBoardTheme th s) = sessionCore s
   \<and> flipBoard s = s\<lparr>isFlipped := \<not> isFlipped s\<rparr>
   \<and> toggleSound s = s\<lparr>soundEnabled := \<not> soundEnabled s\<rparr>
   \<and> updateBoardTheme th s = s\<lparr>boardTheme := th\<rparr>"
  by (simp add: sessionCore_def flipBoard_def toggleSound_def updateBoardTheme_def)

theorem settings_change_own_field_only_witness:
  "sessionCore (flipBoard (clockAt 598 5 True)) = sessionCore (clockAt 598 5 True)
   \<and> isFlipped (flipBoard (clockAt 598 5 True))
   \<and> sessionCore (toggleSound (clockAt 598 5 True)) = sessionCore (clockAt 598 5 True)
   \<and> \<not> soundEnabled (toggleSound (clockAt 598 5 True))
   \<and> sessionCore (updateBoardTheme ''glass'' (clockAt 598 5 True)) = sessionCore (clockAt 598 5 True)
   \<and> boardTheme (updateBoardTheme ''glass'' (clockAt 598 5 True)) = ''glass''"
  using settings_change_own_field_only [of "clockAt 598 5 True" "''glass''"]
  by (simp add: clockAt_def freshState_def sessionCore_def flipBoard_def toggleSound_def
      updateBoardTheme_def)

end
